theory Spec2Isabelle
  imports Complex_Main
begin

section \<open>Numeric values\<close>

text \<open>
  Pixel values, magnitudes and scales are IEEE doubles in the program. They are modelled
  by their value: a finite number (a real, so rounding and overflow of finite arithmetic
  are idealised away), the two infinities, or NaN. The special values follow IEEE 754 as
  numpy implements it: NaN propagates and compares false with everything, dividing by
  zero gives an infinity or NaN (numpy warns, it does not raise). The sign of a zero is
  not tracked; a zero divisor counts as positive.
\<close>

datatype fp = Fin real | PInf | NInf | NaN

fun isfinite :: "fp \<Rightarrow> bool" where
  "isfinite (Fin _) = True"
| "isfinite _ = False"

fun isnan :: "fp \<Rightarrow> bool" where
  "isnan NaN = True"
| "isnan _ = False"

definition inf_signed :: "real \<Rightarrow> fp" where
  "inf_signed a = (if a = 0 then NaN else if 0 < a then PInf else NInf)"

fun fneg :: "fp \<Rightarrow> fp" where
  "fneg (Fin a) = Fin (- a)"
| "fneg PInf = NInf"
| "fneg NInf = PInf"
| "fneg NaN = NaN"

fun fabs :: "fp \<Rightarrow> fp" where
  "fabs (Fin a) = Fin \<bar>a\<bar>"
| "fabs PInf = PInf"
| "fabs NInf = PInf"
| "fabs NaN = NaN"

fun fadd :: "fp \<Rightarrow> fp \<Rightarrow> fp" where
  "fadd NaN _ = NaN"
| "fadd _ NaN = NaN"
| "fadd (Fin a) (Fin b) = Fin (a + b)"
| "fadd PInf NInf = NaN"
| "fadd NInf PInf = NaN"
| "fadd PInf _ = PInf"
| "fadd _ PInf = PInf"
| "fadd NInf _ = NInf"
| "fadd _ NInf = NInf"

definition fsub :: "fp \<Rightarrow> fp \<Rightarrow> fp" where
  "fsub x y = fadd x (fneg y)"

fun fmul :: "fp \<Rightarrow> fp \<Rightarrow> fp" where
  "fmul NaN _ = NaN"
| "fmul _ NaN = NaN"
| "fmul (Fin a) (Fin b) = Fin (a * b)"
| "fmul (Fin a) PInf = inf_signed a"
| "fmul (Fin a) NInf = inf_signed (- a)"
| "fmul PInf (Fin b) = inf_signed b"
| "fmul NInf (Fin b) = inf_signed (- b)"
| "fmul PInf PInf = PInf"
| "fmul NInf NInf = PInf"
| "fmul PInf NInf = NInf"
| "fmul NInf PInf = NInf"

fun fdiv :: "fp \<Rightarrow> fp \<Rightarrow> fp" where
  "fdiv NaN _ = NaN"
| "fdiv _ NaN = NaN"
| "fdiv (Fin a) (Fin b) = (if b = 0 then inf_signed a else Fin (a / b))"
| "fdiv (Fin a) _ = Fin 0"
| "fdiv PInf (Fin b) = (if 0 \<le> b then PInf else NInf)"
| "fdiv NInf (Fin b) = (if 0 \<le> b then NInf else PInf)"
| "fdiv _ _ = NaN"

text \<open>The operator \<^verbatim>\<open>//\<close> on doubles: the floor of the quotient.\<close>

fun ffloordiv :: "fp \<Rightarrow> fp \<Rightarrow> fp" where
  "ffloordiv NaN _ = NaN"
| "ffloordiv _ NaN = NaN"
| "ffloordiv (Fin a) (Fin b) =
     (if b = 0 then inf_signed a else Fin (of_int \<lfloor>a / b\<rfloor>))"
| "ffloordiv (Fin a) PInf = (if 0 \<le> a then Fin 0 else Fin (- 1))"
| "ffloordiv (Fin a) NInf = (if a \<le> 0 then Fin 0 else Fin (- 1))"
| "ffloordiv _ _ = NaN"

fun flt :: "fp \<Rightarrow> fp \<Rightarrow> bool" where
  "flt NaN _ = False"
| "flt _ NaN = False"
| "flt (Fin a) (Fin b) = (a < b)"
| "flt _ NInf = False"
| "flt PInf _ = False"
| "flt _ _ = True"

fun feq :: "fp \<Rightarrow> fp \<Rightarrow> bool" where
  "feq NaN _ = False"
| "feq _ NaN = False"
| "feq x y = (x = y)"

definition fle :: "fp \<Rightarrow> fp \<Rightarrow> bool" where
  "fle x y = (flt x y \<or> feq x y)"

definition fge :: "fp \<Rightarrow> fp \<Rightarrow> bool" where
  "fge x y = fle y x"

definition fne :: "fp \<Rightarrow> fp \<Rightarrow> bool" where
  "fne x y = (\<not> feq x y)"

text \<open>\<^verbatim>\<open>np.sum\<close> of the values of a plain array.\<close>

definition fsum :: "fp list \<Rightarrow> fp" where
  "fsum xs = foldr fadd xs (Fin 0)"

section \<open>Exceptions\<close>

datatype error =
    ValueError
  | OverflowError
  | UnboundLocalError
  | AttributeError
  | AssertionError
  | KeyError
  | TypeError
  | IndexError
  | FileNotFoundError
  | SystemExit string

text \<open>Python's \<^verbatim>\<open>int(x)\<close> on a double truncates towards zero and raises on NaN and
  on an infinity.\<close>

fun py_int :: "fp \<Rightarrow> error + int" where
  "py_int (Fin a) = Inr (if 0 \<le> a then \<lfloor>a\<rfloor> else \<lceil>a\<rceil>)"
| "py_int NaN = Inl ValueError"
| "py_int _ = Inl OverflowError"

section \<open>Arrays, headers and coordinate transforms\<close>

text \<open>
  A two-dimensional array is stored row by row. A \<^verbatim>\<open>numpy.ndarray\<close> holds a value
  per pixel. A \<^verbatim>\<open>numpy.ma.MaskedArray\<close> holds a value per valid pixel and nothing
  observable for a pixel flagged invalid (\<open>None\<close>): numpy leaves unspecified what is
  stored under a set mask flag.
\<close>

datatype array =
    NdArray (nrows: nat) (ncols: nat) "fp list"
  | MaskedArray (nrows: nat) (ncols: nat) "fp option list"

definition shape :: "array \<Rightarrow> nat \<times> nat" where
  "shape a = (nrows a, ncols a)"

text \<open>An elementwise operation with a scalar keeps the class and the mask.\<close>

fun amap :: "(fp \<Rightarrow> fp) \<Rightarrow> array \<Rightarrow> array" where
  "amap f (NdArray r c vs) = NdArray r c (map f vs)"
| "amap f (MaskedArray r c vs) = MaskedArray r c (map (map_option f) vs)"

datatype card = CardStr string | CardNum fp

type_synonym header = "(string \<times> card) list"

text \<open>A coordinate transform is the one \<^verbatim>\<open>WCS(header)\<close> builds from a header.\<close>

datatype wcs = WCS header

type_synonym skycoord = "fp \<times> fp"

datatype region = EllipseSkyRegion skycoord fp fp fp

record gaia_row =
  ra :: fp
  dec :: fp
  phot_g_mean_mag :: fp

text \<open>The table kept in \<^verbatim>\<open>self.stars\<close>: the curated rows of the catalogue, or the
  two columns read from a file of star positions.\<close>

datatype star_table = GaiaTable "gaia_row list" | RaDecTable "skycoord list"

fun table_coords :: "star_table \<Rightarrow> skycoord list" where
  "table_coords (GaiaTable rows) = map (\<lambda>r. (ra r, dec r)) rows"
| "table_coords (RaDecTable cs) = cs"

text \<open>What \<^verbatim>\<open>Cutout2D\<close> returns: the patch and its own transform.\<close>

record cutout =
  cutout_data :: array
  cutout_wcs :: wcs

text \<open>The part of an MPDAF image object that \<^verbatim>\<open>resample\<close> reads.\<close>

record mpdaf_image =
  mpdaf_data :: array
  mpdaf_data_header :: header
  mpdaf_wcs :: wcs
  mpdaf_shape :: "nat \<times> nat"
  mpdaf_step :: "fp \<times> fp"

section \<open>The Image class\<close>

text \<open>
  The attributes of \<^verbatim>\<open>Image\<close>. \<^verbatim>\<open>psfscale\<close> does not exist until a PSF is built or
  opened (\<open>None\<close> here; reading it then raises \<^verbatim>\<open>AttributeError\<close>).
\<close>

record image =
  filename :: string
  input_dir :: string
  output_dir :: string
  data :: array
  header :: header
  main_header :: "header option"
  wcs :: wcs
  units :: string
  galaxy :: "region option"
  debug :: bool
  psf :: "array option"
  stars :: "star_table option"
  psfscale :: "fp option"

section \<open>Collaborators\<close>

text \<open>
  The libraries the program calls (astropy, reproject, regions, MPDAF) are parameters of
  the model: a record of functions, total and without effect on the program's objects.
  \<^verbatim>\<open>mpdaf_open\<close> reads the file at a path; \<^verbatim>\<open>mpdaf_crop\<close> is \<^verbatim>\<open>crop()\<close>, returning
  the cropped object; \<^verbatim>\<open>mpdaf_resample\<close> is \<^verbatim>\<open>resample\<close> with the new dimensions, the
  other arguments being the constants of the call (\<^verbatim>\<open>newstart=None\<close>, \<^verbatim>\<open>newstep=0.2\<close>,
  \<^verbatim>\<open>flux=True\<close>, \<^verbatim>\<open>order=3\<close>). \<^verbatim>\<open>cutout2d\<close> is \<open>None\<close> where \<^verbatim>\<open>Cutout2D\<close> raises
  \<^verbatim>\<open>NoOverlapError\<close>. \<^verbatim>\<open>pixel_scale_arcsec\<close> is
  \<^verbatim>\<open>proj_plane_pixel_scales()[0].to(u.arcsec).value\<close>.
\<close>

record astro_env =
  world_to_pixel :: "wcs \<Rightarrow> skycoord \<Rightarrow> fp \<times> fp"
  pixel_to_world :: "wcs \<Rightarrow> fp \<times> fp \<Rightarrow> skycoord"
  footprint_contains :: "wcs \<Rightarrow> skycoord \<Rightarrow> bool"
  proj_plane_pixel_area :: "wcs \<Rightarrow> fp"
  pixel_scale_arcsec :: "wcs \<Rightarrow> fp"
  pixel_scale_matrix :: "wcs \<Rightarrow> (fp \<times> fp) \<times> (fp \<times> fp)"
  reproject_interp :: "array \<Rightarrow> header \<Rightarrow> header \<Rightarrow> array"
  region_contains :: "region \<Rightarrow> wcs \<Rightarrow> skycoord \<Rightarrow> bool"
  cutout2d :: "array \<Rightarrow> skycoord \<Rightarrow> fp \<Rightarrow> wcs \<Rightarrow> cutout option"
  mpdaf_open :: "string \<Rightarrow> mpdaf_image"
  mpdaf_crop :: "mpdaf_image \<Rightarrow> mpdaf_image"
  mpdaf_resample :: "mpdaf_image \<Rightarrow> int \<times> int \<Rightarrow> mpdaf_image"

text \<open>\<^verbatim>\<open>os.path.join\<close> of a directory and a file name.\<close>

definition path_join :: "string \<Rightarrow> string \<Rightarrow> string" where
  "path_join d f =
     (if f \<noteq> [] \<and> hd f = CHR ''/'' then f
      else if d = [] \<or> last d = CHR ''/'' then d @ f
      else d @ ''/'' @ f)"

section \<open>Image.resample\<close>

text \<open>
  The header branch of \<^verbatim>\<open>resample\<close> (lines 162-173): the data attribute is assigned the
  reprojected array first; then \<^verbatim>\<open>inplace\<close> decides between updating the object and
  returning the triple.
\<close>

definition resample_header ::
  "astro_env \<Rightarrow> 'a image_scheme \<Rightarrow> header \<Rightarrow> bool
    \<Rightarrow> 'a image_scheme \<times> (array \<times> wcs \<times> header) option" where
  "resample_header env self h inplace =
     (let self1 = self\<lparr>data := reproject_interp env (data self) (header self) h\<rparr>;
          area_old = proj_plane_pixel_area env (wcs self1);
          area_new = proj_plane_pixel_area env (WCS h);
          factor = fdiv area_new area_old
      in if inplace
         then (self1\<lparr>data := amap (\<lambda>x. fmul x factor) (data self1),
                      wcs := WCS h, header := h\<rparr>, None)
         else (self1, Some (amap (\<lambda>x. fmul x factor) (data self1), WCS h, h)))"

text \<open>
  The pixel-scale branch (lines 176-190): the file is opened again with MPDAF, cropped
  and resampled to the new dimensions.
\<close>

definition resample_pixscale ::
  "astro_env \<Rightarrow> 'a image_scheme \<Rightarrow> fp \<Rightarrow> bool
    \<Rightarrow> error + ('a image_scheme \<times> (array \<times> wcs \<times> header) option)" where
  "resample_pixscale env self pixscale inplace =
     (let image0 = mpdaf_crop env (mpdaf_open env (path_join (input_dir self) (filename self)));
          scale = (fmul (fst (mpdaf_step image0)) (Fin 3600),
                   fmul (snd (mpdaf_step image0)) (Fin 3600))
      in case py_int (ffloordiv (fmul (Fin (real (fst (mpdaf_shape image0)))) (fst scale))
                        pixscale) of
           Inl e \<Rightarrow> Inl e
         | Inr newdim_y \<Rightarrow>
            (case py_int (ffloordiv (fmul (Fin (real (snd (mpdaf_shape image0)))) (snd scale))
                            pixscale) of
               Inl e \<Rightarrow> Inl e
             | Inr newdim_x \<Rightarrow>
                (let image1 = mpdaf_resample env image0 (newdim_y, newdim_x)
                 in if inplace
                    then Inr (self\<lparr>data := mpdaf_data image1,
                                    header := mpdaf_data_header image1,
                                    wcs := mpdaf_wcs image1\<rparr>, None)
                    else Inr (self, Some (mpdaf_data image1, mpdaf_wcs image1,
                                          mpdaf_data_header image1)))))"

definition resample ::
  "astro_env \<Rightarrow> 'a image_scheme \<Rightarrow> header option \<Rightarrow> fp option \<Rightarrow> bool
    \<Rightarrow> error + ('a image_scheme \<times> (array \<times> wcs \<times> header) option)" where
  "resample env self hdr pixscale inplace =
     (case (hdr, pixscale) of
        (None, None) \<Rightarrow> Inl ValueError
      | (Some h, Some s) \<Rightarrow> Inl ValueError
      | (Some h, None) \<Rightarrow> Inr (resample_header env self h inplace)
      | (None, Some s) \<Rightarrow> resample_pixscale env self s inplace)"

section \<open>Helpers of the program that are not in the sources\<close>

text \<open>
  \<^verbatim>\<open>utils.py\<close> is not part of the sources at hand. Its functions are parameters:
  \<^verbatim>\<open>query_gaia\<close> (centre, radius) returns the rows of the catalogue,
  \<^verbatim>\<open>remove_close_stars\<close> a boolean mask over the coordinates,
  \<^verbatim>\<open>find_peaks_2d\<close> (array, threshold) the list of peaks as (row, column).
\<close>

text \<open>\<^verbatim>\<open>bin_image\<close> (array, block size) returns the medians and the standard
  deviations of the blocks, which line 255 unpacks; they are kept here block by block:
  the shape of the grid of blocks (rows, columns) and one pair (median, standard
  deviation) per block.\<close>

type_synonym binned = "nat \<times> nat \<times> (fp \<times> fp) list"

record utils_env =
  query_gaia :: "skycoord \<Rightarrow> fp \<Rightarrow> gaia_row list"
  remove_close_stars :: "skycoord list \<Rightarrow> bool list"
  find_peaks_2d :: "array \<Rightarrow> fp \<Rightarrow> (nat \<times> nat) list"
  bin_image :: "array \<Rightarrow> nat \<Rightarrow> binned"

text \<open>Indexing a table or an array with a boolean mask keeps the entries at the
  positions where the mask is true, in order.\<close>

definition select :: "bool list \<Rightarrow> 'a list \<Rightarrow> 'a list" where
  "select m xs = map snd (filter fst (zip m xs))"

section \<open>Image.get\_gaia\_catalog\<close>

text \<open>
  The local variable \<^verbatim>\<open>mask2\<close> is assigned only under
  \<^verbatim>\<open>if self.galaxy is not None\<close> (lines 260-261); it is \<open>None\<close> here while
  unassigned, and reading an unassigned local raises \<^verbatim>\<open>UnboundLocalError\<close> (line 263).
\<close>

definition get_gaia_catalog ::
  "astro_env \<Rightarrow> utils_env \<Rightarrow> 'a image_scheme \<Rightarrow> skycoord \<Rightarrow> fp \<Rightarrow> fp \<Rightarrow> fp
    \<Rightarrow> error + 'a image_scheme" where
  "get_gaia_catalog env ut self center gmin gmax radius =
     (let gaia_cat0 = query_gaia ut center radius;
          coords0 = map (\<lambda>r. (ra r, dec r)) gaia_cat0;
          good_stars = remove_close_stars ut coords0;
          gaia_cat1 = select good_stars gaia_cat0;
          coords1 = select good_stars coords0;
          mask1 = map (\<lambda>r. fge (phot_g_mean_mag r) gmin \<and> fle (phot_g_mean_mag r) gmax)
                    gaia_cat1;
          gaia_cat2 = select mask1 gaia_cat1;
          coords2 = select mask1 coords1;
          xy = map (world_to_pixel env (wcs self)) coords2;
          margin = (15 :: int);
          valid_x = map (\<lambda>(x, y). fge x (Fin (of_int margin)) \<and>
                           flt x (Fin (of_int (int (ncols (data self)) - margin)))) xy;
          valid_y = map (\<lambda>(x, y). fge y (Fin (of_int margin)) \<and>
                           flt y (Fin (of_int (int (nrows (data self)) - margin)))) xy;
          valid_mask = map2 (\<and>) valid_x valid_y;
          inside = map (footprint_contains env (wcs self)) coords2;
          mask2 = (case galaxy self of
                     None \<Rightarrow> None
                   | Some g \<Rightarrow> Some (map (region_contains env g (wcs self)) coords2))
      in case mask2 of
           None \<Rightarrow> Inl UnboundLocalError
         | Some m2 \<Rightarrow>
             Inr (self\<lparr>stars :=
                    Some (GaiaTable
                            (select (map2 (\<and>) (map2 (\<and>) inside (map Not m2)) valid_mask)
                               gaia_cat2))\<rparr>))"

section \<open>Image.build\_startable\<close>

text \<open>
  What the loop reads from a cutout. For a masked array, numpy evaluates
  \<^verbatim>\<open>np.isfinite(a).all()\<close> over the pixels that are not flagged (and the result is the
  masked constant, which is false, when every pixel is flagged); \<^verbatim>\<open>a.mask.sum()\<close> counts
  the flagged pixels; \<^verbatim>\<open>np.nanmax\<close> and \<^verbatim>\<open>argmax\<close> range over the pixels that are not
  flagged. A plain \<^verbatim>\<open>ndarray\<close> has no attribute \<^verbatim>\<open>mask\<close>.
\<close>

fun isfinite_all :: "array \<Rightarrow> bool" where
  "isfinite_all (NdArray r c vs) = list_all isfinite vs"
| "isfinite_all (MaskedArray r c vs) =
     (list_all (\<lambda>v. case v of None \<Rightarrow> True | Some x \<Rightarrow> isfinite x) vs
      \<and> \<not> list_all (\<lambda>v. v = None) vs)"

fun is_masked :: "array \<Rightarrow> bool" where
  "is_masked (NdArray r c vs) = False"
| "is_masked (MaskedArray r c vs) = True"

fun mask_sum :: "array \<Rightarrow> error + nat" where
  "mask_sum (NdArray r c vs) = Inl AttributeError"
| "mask_sum (MaskedArray r c vs) = Inr (length (filter (\<lambda>v. v = None) vs))"

text \<open>The values an array shows: a flagged pixel counts as minus infinity for
  \<^verbatim>\<open>argmax\<close> (numpy fills it with the minimum value) and is ignored by \<^verbatim>\<open>nanmax\<close>.\<close>

fun filled_min :: "array \<Rightarrow> fp list" where
  "filled_min (NdArray r c vs) = vs"
| "filled_min (MaskedArray r c vs) = map (\<lambda>v. case v of None \<Rightarrow> NInf | Some x \<Rightarrow> x) vs"

fun unmasked :: "array \<Rightarrow> fp list" where
  "unmasked (NdArray r c vs) = vs"
| "unmasked (MaskedArray r c vs) = List.map_filter (\<lambda>v. v) vs"

text \<open>\<^verbatim>\<open>np.nanmax\<close>: the largest value that is not NaN (NaN when there is none).\<close>

fun nanmax_acc :: "fp \<Rightarrow> fp list \<Rightarrow> fp" where
  "nanmax_acc m [] = m"
| "nanmax_acc m (v # vs) =
     (if isnan v then nanmax_acc m vs
      else if isnan m \<or> flt m v then nanmax_acc v vs
      else nanmax_acc m vs)"

definition nanmax :: "array \<Rightarrow> fp" where
  "nanmax a = nanmax_acc NaN (unmasked a)"

text \<open>\<^verbatim>\<open>argmax\<close>: the first position of the largest value (of the first NaN, if any).\<close>

fun argmax_acc :: "fp list \<Rightarrow> nat \<Rightarrow> nat \<Rightarrow> fp \<Rightarrow> nat" where
  "argmax_acc [] i best bv = best"
| "argmax_acc (v # vs) i best bv =
     (if isnan bv then best
      else if isnan v \<or> flt bv v then argmax_acc vs (Suc i) i v
      else argmax_acc vs (Suc i) best bv)"

definition argmax :: "array \<Rightarrow> nat" where
  "argmax a = (case filled_min a of [] \<Rightarrow> 0 | v # vs \<Rightarrow> argmax_acc vs 1 0 v)"

definition unravel_index :: "nat \<Rightarrow> nat \<times> nat \<Rightarrow> nat \<times> nat" where
  "unravel_index k shp = (k div snd shp, k mod snd shp)"

record star_row =
  row_x :: fp
  row_y :: fp
  row_ra :: fp
  row_dec :: fp

datatype 'a step = Skip | Raise error | Emit 'a

text \<open>The three guards at the head of the loop body (lines 301-308).\<close>

definition cutout_checks :: "astro_env \<Rightarrow> array \<Rightarrow> wcs \<Rightarrow> skycoord \<Rightarrow> cutout step" where
  "cutout_checks env dat w coord =
     (case cutout2d env dat coord (Fin 7) w of
        None \<Rightarrow> Skip
      | Some zoom \<Rightarrow>
          if \<not> isfinite_all (cutout_data zoom) then Skip
          else (case mask_sum (cutout_data zoom) of
                  Inl e \<Rightarrow> Raise e
                | Inr n \<Rightarrow> if n \<ge> 5 then Skip else Emit zoom))"

text \<open>Peak detection and the choice of the centre (lines 310-316), as (row, column).\<close>

definition refine_center :: "utils_env \<Rightarrow> cutout \<Rightarrow> (nat \<times> nat) option" where
  "refine_center ut zoom =
     (let peaks = find_peaks_2d ut (cutout_data zoom)
                    (fmul (Fin 0.05) (nanmax (cutout_data zoom)))
      in if length peaks > 1 then None
         else if length peaks = 0
         then Some (unravel_index (argmax (cutout_data zoom)) (shape (cutout_data zoom)))
         else Some (fst (peaks ! 0), snd (peaks ! 0)))"

text \<open>One pass of the loop body (lines 300-328). The coordinates kept only for the
  diagnostic figure (\<^verbatim>\<open>xplt\<close>, \<^verbatim>\<open>yplt\<close>) are left out.\<close>

definition refined_row :: "astro_env \<Rightarrow> wcs \<Rightarrow> cutout \<Rightarrow> nat \<times> nat \<Rightarrow> star_row" where
  "refined_row env w zoom guess =
     (let newcoord = pixel_to_world env (cutout_wcs zoom)
                       (Fin (real (snd guess)), Fin (real (fst guess)));
          newpix = world_to_pixel env w newcoord
      in \<lparr>row_x = fst newpix, row_y = snd newpix,
          row_ra = fst newcoord, row_dec = snd newcoord\<rparr>)"

definition star_entry ::
  "astro_env \<Rightarrow> utils_env \<Rightarrow> array \<Rightarrow> wcs \<Rightarrow> skycoord \<Rightarrow> star_row step" where
  "star_entry env ut dat w coord =
     (case cutout_checks env dat w coord of
        Skip \<Rightarrow> Skip
      | Raise e \<Rightarrow> Raise e
      | Emit zoom \<Rightarrow>
          (case refine_center ut zoom of
             None \<Rightarrow> Skip
           | Some guess \<Rightarrow> Emit (refined_row env w zoom guess)))"

fun startable_loop ::
  "astro_env \<Rightarrow> utils_env \<Rightarrow> array \<Rightarrow> wcs \<Rightarrow> skycoord list \<Rightarrow> star_row list
    \<Rightarrow> error + star_row list" where
  "startable_loop env ut dat w [] tbl = Inr tbl"
| "startable_loop env ut dat w (coord # coords) tbl =
     (case star_entry env ut dat w coord of
        Skip \<Rightarrow> startable_loop env ut dat w coords tbl
      | Raise e \<Rightarrow> Inl e
      | Emit row \<Rightarrow> startable_loop env ut dat w coords (tbl @ [row]))"

text \<open>After the loop the figure is drawn, which reads \<^verbatim>\<open>self.galaxy.to_pixel\<close>
  (line 345): with no galaxy set that is an attribute of \<^verbatim>\<open>None\<close>.\<close>

definition build_startable ::
  "astro_env \<Rightarrow> utils_env \<Rightarrow> 'a image_scheme \<Rightarrow> skycoord list \<Rightarrow> array \<Rightarrow> wcs
    \<Rightarrow> error + star_row list" where
  "build_startable env ut self coords dat w =
     (case startable_loop env ut dat w coords [] of
        Inl e \<Rightarrow> Inl e
      | Inr stars_tbl \<Rightarrow>
          (case galaxy self of
             None \<Rightarrow> Inl AttributeError
           | Some g \<Rightarrow> Inr stars_tbl))"

text \<open>The resampled image a call of \<^verbatim>\<open>resample\<close> produces: the triple it returns, or,
  with \<^verbatim>\<open>inplace\<close>, the new data, transform and header of the object.\<close>

definition resampled ::
  "bool \<Rightarrow> error + ('a image_scheme \<times> (array \<times> wcs \<times> header) option)
    \<Rightarrow> error + (array \<times> wcs \<times> header) option" where
  "resampled inplace r =
     (case r of
        Inl e \<Rightarrow> Inl e
      | Inr (self', out) \<Rightarrow>
          Inr (if inplace then Some (data self', wcs self', header self') else out))"

section \<open>Image.build\_psf\<close>

text \<open>
  \<^verbatim>\<open>np.around(x, 3)\<close>: the nearest multiple of a thousandth, a tie going to the even
  one.
\<close>

definition rint :: "real \<Rightarrow> real" where
  "rint x =
     (let f = \<lfloor>x\<rfloor>; d = x - of_int f
      in if d < 1 / 2 then of_int f
         else if 1 / 2 < d then of_int (f + 1)
         else if even f then of_int f else of_int (f + 1))"

fun around3 :: "fp \<Rightarrow> fp" where
  "around3 (Fin x) = Fin (rint (x * 1000) / 1000)"
| "around3 x = x"

text \<open>\<^verbatim>\<open>str.replace\<close> with a pattern that is not empty (the program passes
  \<^verbatim>\<open>'.fits'\<close>).\<close>

fun str_replace :: "string \<Rightarrow> string \<Rightarrow> string \<Rightarrow> string" where
  "str_replace old new [] = []"
| "str_replace old new (c # cs) =
     (if old \<noteq> [] \<and> take (length old) (c # cs) = old
      then new @ str_replace old new (drop (length old) (c # cs))
      else c # str_replace old new cs)"

text \<open>
  The files the program writes and reads: a PSF file holds the kernel and the card
  \<^verbatim>\<open>PSFSCALE\<close>, a star file two columns of sky positions, a region file the
  positions of the stars to mask. Figures are not modelled.
\<close>

datatype disk_file =
    PsfFits array fp
  | StarsDat "skycoord list"
  | RegionFile "(fp \<times> fp) list"

type_synonym files = "string \<Rightarrow> disk_file option"

text \<open>
  photutils: \<^verbatim>\<open>extract_stars\<close> (data, table of x and y, size), the median of
  \<^verbatim>\<open>sigma_clipped_stats\<close> with \<^verbatim>\<open>sigma=2.0\<close>, the call of an \<^verbatim>\<open>EPSFBuilder\<close> with the
  given oversampling (\<^verbatim>\<open>center_accuracy=0.1\<close>, \<^verbatim>\<open>maxiters=50\<close>), and
  \<^verbatim>\<open>epsf.evaluate(xx, yy, 1., 0, 0)\<close>, which gives a plain array of the shape of \<open>xx\<close>.
\<close>

record epsf_star =
  star_data :: array
  cutout_center :: "fp \<times> fp"

record fitted_stars =
  fitted :: "epsf_star list"
  n_good_stars :: nat

record phot_env =
  extract_stars :: "array \<Rightarrow> (fp \<times> fp) list \<Rightarrow> nat \<Rightarrow> epsf_star list"
  sigma_clipped_median :: "array \<Rightarrow> fp"
  epsf_builder :: "nat \<Rightarrow> epsf_star list \<Rightarrow> array \<times> fitted_stars"
  epsf_evaluate :: "array \<Rightarrow> array \<Rightarrow> array \<Rightarrow> fp list"

text \<open>Lines 387-394: the grid the stars are measured on, and the scale recorded.\<close>

definition build_psf_grid ::
  "astro_env \<Rightarrow> 'a image_scheme \<Rightarrow> fp option \<Rightarrow> error + ('a image_scheme \<times> array \<times> wcs)" where
  "build_psf_grid env self pixscale =
     (case pixscale of
        Some s \<Rightarrow>
          (case resample env self None (Some s) False of
             Inl e \<Rightarrow> Inl e
           | Inr (self1, None) \<Rightarrow> Inl TypeError
           | Inr (self1, Some (d, w, h)) \<Rightarrow> Inr (self1\<lparr>psfscale := Some s\<rparr>, d, w))
      | None \<Rightarrow>
          Inr (self\<lparr>psfscale := Some (around3 (pixel_scale_arcsec env (wcs self)))\<rparr>,
               data self, wcs self))"

text \<open>Lines 396-409: the table of pixel positions, from the catalogue or from a file
  of star positions.\<close>

definition stars_path :: "'a image_scheme \<Rightarrow> string" where
  "stars_path self =
     path_join (output_dir self) (str_replace ''.fits'' ''.stars.dat'' (filename self))"

definition psf_path :: "'a image_scheme \<Rightarrow> string" where
  "psf_path self =
     path_join (output_dir self) (str_replace ''.fits'' ''.psf.fits'' (filename self))"

definition build_psf_table ::
  "astro_env \<Rightarrow> utils_env \<Rightarrow> files \<Rightarrow> 'a image_scheme \<Rightarrow> array \<Rightarrow> wcs \<Rightarrow> skycoord
    \<Rightarrow> fp \<Rightarrow> fp \<Rightarrow> string option \<Rightarrow> fp
    \<Rightarrow> (error + (fp \<times> fp) list) \<times> files \<times> 'a image_scheme" where
  "build_psf_table env ut fs self dat w center gmin gmax stars_file radius =
     (case stars_file of
        None \<Rightarrow>
          (case get_gaia_catalog env ut self center gmin gmax radius of
             Inl e \<Rightarrow> (Inl e, fs, self)
           | Inr self1 \<Rightarrow>
               (case stars self1 of
                  None \<Rightarrow> (Inl TypeError, fs, self1)
                | Some tab \<Rightarrow>
                    (case build_startable env ut self1 (table_coords tab) dat w of
                       Inl e \<Rightarrow> (Inl e, fs, self1)
                     | Inr stars_tbl \<Rightarrow>
                         (Inr (map (\<lambda>r. (row_x r, row_y r)) stars_tbl),
                          fs(stars_path self1 \<mapsto>
                               StarsDat (map (\<lambda>r. (row_ra r, row_dec r)) stars_tbl)),
                          self1))))
      | Some f \<Rightarrow>
          (case fs f of
             Some (StarsDat cs) \<Rightarrow>
               (let self1 = self\<lparr>stars := Some (RaDecTable cs)\<rparr>
                in (Inr (map (world_to_pixel env (wcs self1)) cs), fs, self1))
           | _ \<Rightarrow> (Inl FileNotFoundError, fs, self)))"

text \<open>Lines 411-430: the stars are cut out, their local background is removed, the
  builder runs, and the model is evaluated on the grid of the first star.\<close>

definition index_grids :: "nat \<times> nat \<Rightarrow> fp \<times> fp \<Rightarrow> array \<times> array" where
  "index_grids shp cen =
     (NdArray (fst shp) (snd shp)
        (concat (map (\<lambda>i. map (\<lambda>j. fsub (Fin (real j)) (fst cen)) [0..<snd shp])
                   [0..<fst shp])),
      NdArray (fst shp) (snd shp)
        (concat (map (\<lambda>i. map (\<lambda>j. fsub (Fin (real i)) (snd cen)) [0..<snd shp])
                   [0..<fst shp])))"

definition build_psf_kernel ::
  "phot_env \<Rightarrow> array \<Rightarrow> (fp \<times> fp) list \<Rightarrow> nat \<Rightarrow> nat
    \<Rightarrow> error + ((nat \<times> nat) \<times> fp list \<times> fitted_stars)" where
  "build_psf_kernel ph dat stars_tbl npix oversampling =
     (let stars0 = extract_stars ph dat stars_tbl npix;
          stars1 = map (\<lambda>star. star\<lparr>star_data :=
                           amap (\<lambda>x. fsub x (sigma_clipped_median ph (star_data star)))
                             (star_data star)\<rparr>) stars0;
          built = epsf_builder ph oversampling stars1
      in case stars1 of
           [] \<Rightarrow> Inl IndexError
         | star0 # rest \<Rightarrow>
             (let grids = index_grids (shape (star_data star0)) (cutout_center star0)
              in Inr (shape (star_data star0),
                      epsf_evaluate ph (fst built) (fst grids) (snd grids),
                      snd built)))"

text \<open>Lines 445-453: the kernel that is kept, from the values of the built one.\<close>

definition normalize_psf :: "fp list \<Rightarrow> fp list" where
  "normalize_psf vs =
     (let psf_flux = fsum vs
      in if flt (fabs (fsub (Fin 1) psf_flux)) (Fin 0.0001) then vs
         else map (\<lambda>x. fdiv x psf_flux) vs)"

text \<open>Lines 438-456: the exit when no star was used, else the kernel is stored in the
  object and written with its scale.\<close>

definition store_psf ::
  "files \<Rightarrow> 'a image_scheme \<Rightarrow> nat \<times> nat \<Rightarrow> fp list \<Rightarrow> nat
    \<Rightarrow> (error + unit) \<times> files \<times> 'a image_scheme" where
  "store_psf fs self shp vs n_good =
     (if n_good > 0
      then (let self1 = self\<lparr>psf := Some (NdArray (fst shp) (snd shp) (normalize_psf vs))\<rparr>
            in case psfscale self1 of
                 None \<Rightarrow> (Inl AttributeError, fs, self1)
               | Some sc \<Rightarrow>
                   (Inr (),
                    fs(psf_path self1 \<mapsto>
                         PsfFits (NdArray (fst shp) (snd shp) (normalize_psf vs)) sc),
                    self1))
      else (Inl (SystemExit ''No stars were used for the fit.''), fs, self))"

definition build_psf ::
  "astro_env \<Rightarrow> utils_env \<Rightarrow> phot_env \<Rightarrow> files \<Rightarrow> 'a image_scheme \<Rightarrow> skycoord \<Rightarrow> fp \<Rightarrow> fp
    \<Rightarrow> string option \<Rightarrow> fp \<Rightarrow> nat \<Rightarrow> fp option \<Rightarrow> nat
    \<Rightarrow> (error + unit) \<times> files \<times> 'a image_scheme" where
  "build_psf env ut ph fs self center gmin gmax stars_file radius npix pixscale oversampling =
     (case build_psf_grid env self pixscale of
        Inl e \<Rightarrow> (Inl e, fs, self)
      | Inr (self1, dat, w) \<Rightarrow>
          (case build_psf_table env ut fs self1 dat w center gmin gmax stars_file radius of
             (Inl e, fs1, self2) \<Rightarrow> (Inl e, fs1, self2)
           | (Inr stars_tbl, fs1, self2) \<Rightarrow>
               (case build_psf_kernel ph dat stars_tbl npix oversampling of
                  Inl e \<Rightarrow> (Inl e, fs1, self2)
                | Inr (shp, vs, fitted_stars) \<Rightarrow>
                    store_psf fs1 self2 shp vs (n_good_stars fitted_stars))))"

section \<open>The MUSEImage class\<close>

text \<open>
  \<^verbatim>\<open>MUSEImage\<close> extends \<^verbatim>\<open>Image\<close>. The attributes \<^verbatim>\<open>res\<close>, \<^verbatim>\<open>star_pos\<close>,
  \<^verbatim>\<open>starmask\<close> and \<^verbatim>\<open>best_fit\<close> do not exist until a fit has run (\<open>None\<close> here);
  \<^verbatim>\<open>star_pos\<close> may then hold Python's \<^verbatim>\<open>None\<close>.
\<close>

record muse_image = image +
  scale :: fp
  region_dir :: string
  res :: "fp list list option"
  star_pos :: "(fp \<times> fp) list option option"
  starmask :: "array option"
  best_fit :: "fp list option"

text \<open>
  scipy and numpy: \<^verbatim>\<open>odr_run\<close> is the orthogonal-distance regression of the linear
  model started at \<^verbatim>\<open>beta0=[1, 0]\<close>, from the data (x, y, sx, sy) to the fitted
  (gamma, offset); \<^verbatim>\<open>ndimage_rotate\<close> and \<^verbatim>\<open>ndimage_zoom\<close> are
  \<^verbatim>\<open>scipy.ndimage.rotate\<close> and \<^verbatim>\<open>zoom\<close>, the latter giving a plain array (rows,
  columns, values); \<^verbatim>\<open>arctan2\<close> is \<^verbatim>\<open>np.arctan2\<close>.
\<close>

record numeric_env =
  odr_run :: "fp list \<Rightarrow> fp list \<Rightarrow> fp list \<Rightarrow> fp list \<Rightarrow> fp \<times> fp"
  ndimage_rotate :: "array \<Rightarrow> fp \<Rightarrow> array"
  ndimage_zoom :: "array \<Rightarrow> int \<Rightarrow> nat \<times> nat \<times> fp list"
  arctan2 :: "fp \<Rightarrow> fp \<Rightarrow> fp"

section \<open>MUSEImage.check\_flux\_calibration\<close>

text \<open>Two shapes that numpy can broadcast against each other.\<close>

definition broadcastable :: "nat \<times> nat \<Rightarrow> nat \<times> nat \<Rightarrow> bool" where
  "broadcastable s t =
     ((fst s = fst t \<or> fst s = 1 \<or> fst t = 1) \<and> (snd s = snd t \<or> snd s = 1 \<or> snd t = 1))"

text \<open>Line 259: the blocks that enter the regression.\<close>

definition valid_block :: "fp \<Rightarrow> fp \<Rightarrow> bool" where
  "valid_block m r = (\<not> isnan m \<and> \<not> isnan r \<and> fne m (Fin 0) \<and> fne r (Fin 0))"

text \<open>
  Lines 251-291. The reference is an array, as the docstring and the caller in
  \<^verbatim>\<open>measure_psf\<close> have it, so \<^verbatim>\<open>resample=True\<close> ends in \<^verbatim>\<open>AttributeError\<close> (an array
  has no method \<^verbatim>\<open>resample\<close>). Medians of unequal shapes make the mask or the indexing
  with it fail; \<^verbatim>\<open>self.data/reference\<close> (line 288) fails on shapes that cannot be
  broadcast, before the data is assigned.
\<close>

definition check_flux_calibration ::
  "utils_env \<Rightarrow> numeric_env \<Rightarrow> 'a muse_image_scheme \<Rightarrow> array \<Rightarrow> nat \<Rightarrow> bool
    \<Rightarrow> (error + unit) \<times> 'a muse_image_scheme" where
  "check_flux_calibration ut nu self reference bin_size resample_flag =
     (if resample_flag then (Inl AttributeError, self)
      else
        (case (bin_image ut (data self) bin_size, bin_image ut reference bin_size) of
           ((mr, mc, muse_blocks), (rr, rc, reference_blocks)) \<Rightarrow>
             if (mr, mc) \<noteq> (rr, rc)
             then (Inl (if broadcastable (mr, mc) (rr, rc) then IndexError else ValueError),
                   self)
             else
               (let MUSE_median = map fst muse_blocks;
                    MUSE_std = map snd muse_blocks;
                    reference_median = map fst reference_blocks;
                    reference_std = map snd reference_blocks;
                    valid_mask = map2 valid_block MUSE_median reference_median;
                    beta = odr_run nu (select valid_mask MUSE_median)
                             (select valid_mask reference_median)
                             (select valid_mask MUSE_std)
                             (select valid_mask reference_std)
                in if \<not> broadcastable (shape (data self)) (shape reference)
                   then (Inl ValueError, self)
                   else (Inr (),
                         self\<lparr>data := amap (\<lambda>x. fadd (fmul (fst beta) x) (snd beta))
                                         (data self)\<rparr>))))"

section \<open>MUSEImage.measure\_psf\<close>

text \<open>
  The keyword arguments that \<^verbatim>\<open>measure_psf\<close> pops (\<open>None\<close>: not given, the default
  applies) and the remaining ones, which are handed on.
\<close>

record kwargs =
  kw_edge :: "int option"
  kw_dx0 :: "fp option"
  kw_dy0 :: "fp option"
  kw_fwhm0 :: "fp option"
  kw_mask_stars :: "bool option"
  kw_rest :: "(string \<times> fp) list"

definition pop :: "'a option \<Rightarrow> 'a \<Rightarrow> 'a" where
  "pop v dflt = (case v of None \<Rightarrow> dflt | Some x \<Rightarrow> x)"

text \<open>
  The two helpers of \<^verbatim>\<open>utils.py\<close> the fit calls: \<^verbatim>\<open>locate_stars\<close> (data, content of
  the region file if there is one, remaining keywords) gives the star positions (or
  \<^verbatim>\<open>None\<close>) and the star mask; \<^verbatim>\<open>run_measure_psf\<close> gives the output of the fit, the
  star positions and the star mask. Boolean arrays are arrays of 1 and 0.
\<close>

record fit_args =
  fit_data :: array
  fit_ref_data :: array
  fit_psf :: array
  fit_star_pos :: "(fp \<times> fp) list option"
  fit_starmask :: array
  fit_zeromask :: array
  fit_oversample :: int
  fit_alpha :: bool
  fit_alpha0 :: fp
  fit_fwhm0 :: fp
  fit_offset :: bool
  fit_scale :: fp
  fit_edge :: int
  fit_dx0 :: fp
  fit_dy0 :: fp
  fit_kwargs :: "(string \<times> fp) list"

record fit_env =
  locate_stars ::
    "array \<Rightarrow> disk_file option \<Rightarrow> (string \<times> fp) list \<Rightarrow> (fp \<times> fp) list option \<times> array"
  run_measure_psf :: "fit_args \<Rightarrow> fp list list \<times> (fp \<times> fp) list option \<times> array"

text \<open>Lines 299-308.\<close>

definition get_rot :: "astro_env \<Rightarrow> numeric_env \<Rightarrow> 'a image_scheme \<Rightarrow> fp" where
  "get_rot env nu self =
     (let cd_matrix = pixel_scale_matrix env (wcs self);
          theta_rad = arctan2 nu (fneg (snd (fst cd_matrix))) (snd (snd cd_matrix))
      in fdiv (fmul theta_rad (Fin 180)) (Fin pi))"

definition regions_path :: "'a muse_image_scheme \<Rightarrow> string" where
  "regions_path self =
     path_join (region_dir self) (str_replace ''.fits'' ''_regions.reg'' (filename self))"

text \<open>Lines 177-189: the stars to mask, from the region file if it exists, else located
  in the data and written to the region file.\<close>

definition star_masking ::
  "fit_env \<Rightarrow> files \<Rightarrow> 'a muse_image_scheme \<Rightarrow> array \<Rightarrow> bool \<Rightarrow> (string \<times> fp) list
    \<Rightarrow> ((fp \<times> fp) list option \<times> array) \<times> files" where
  "star_masking fe fs self dat mask_stars rest =
     (if mask_stars
      then (if fs (regions_path self) \<noteq> None
            then (locate_stars fe dat (fs (regions_path self)) rest, fs)
            else (let located = locate_stars fe dat None rest
                  in case fst located of
                       None \<Rightarrow> (located, fs)
                     | Some tab \<Rightarrow> (located, fs(regions_path self \<mapsto> RegionFile tab))))
      else ((None, NdArray (nrows dat) (ncols dat) (replicate (nrows dat * ncols dat) (Fin 0))),
            fs))"

text \<open>
  Lines 161-227, after the flux calibration: the choice of alpha from the main header,
  the star mask, the rotation of the PSF, the oversampling (which sets the NaN pixels of
  the object's data to 0 in place) and the fit, whose results become attributes.
\<close>

definition measure_psf_fit ::
  "astro_env \<Rightarrow> numeric_env \<Rightarrow> fit_env \<Rightarrow> files \<Rightarrow> 'a muse_image_scheme \<Rightarrow> 'b image_scheme
    \<Rightarrow> array \<Rightarrow> array \<Rightarrow> bool \<Rightarrow> bool \<Rightarrow> int option \<Rightarrow> kwargs
    \<Rightarrow> (error + unit) \<times> files \<times> 'a muse_image_scheme" where
  "measure_psf_fit env nu fe fs self reference ref_psf zeromask alpha_free offset oversample kw =
     (case main_header self of
        None \<Rightarrow> (Inl TypeError, fs, self)
      | Some mh \<Rightarrow>
          (case map_of mh ''HIERARCH ESO TPL ID'' of
             None \<Rightarrow> (Inl KeyError, fs, self)
           | Some tpl \<Rightarrow>
               (let alpha = (if tpl = CardStr ''MUSE_wfm-ao_obs_genericoffsetLGS''
                             then Fin 2.3 else Fin 2.8);
                    edge = pop (kw_edge kw) 50;
                    dx0 = pop (kw_dx0 kw) (Fin 0);
                    dy0 = pop (kw_dy0 kw) (Fin 0);
                    fwhm0 = pop (kw_fwhm0 kw) (Fin 0.8);
                    mask_stars = pop (kw_mask_stars kw) True;
                    masking = star_masking fe fs self (data self) mask_stars (kw_rest kw);
                    fs1 = snd masking;
                    img_rot = get_rot env nu self;
                    psf0 = (if fne img_rot (Fin 0) then ndimage_rotate nu ref_psf img_rot
                            else ref_psf);
                    over = (case oversample of None \<Rightarrow> False | Some k \<Rightarrow> 1 < k);
                    k = pop oversample 1;
                    self1 = (if over
                             then self\<lparr>data := amap (\<lambda>x. if isnan x then Fin 0 else x)
                                                   (data self)\<rparr>
                             else self);
                    k2 = Fin (of_int (k * k));
                    zoomed = (\<lambda>a. case ndimage_zoom nu a k of
                                      (r, c, vs) \<Rightarrow> NdArray r c (map (\<lambda>x. fdiv x k2) vs));
                    zoomed_psf = (case ndimage_zoom nu psf0 k of
                                    (r, c, vs) \<Rightarrow> NdArray r c (map (\<lambda>x. fdiv x (fsum vs)) vs));
                    args = \<lparr>fit_data = (if over then zoomed (data self1) else data self1),
                            fit_ref_data = (if over then zoomed (data reference)
                                            else data reference),
                            fit_psf = (if over then zoomed_psf else psf0),
                            fit_star_pos = fst (fst masking),
                            fit_starmask = snd (fst masking),
                            fit_zeromask = zeromask,
                            fit_oversample = (if over then k else 1),
                            fit_alpha = alpha_free,
                            fit_alpha0 = alpha,
                            fit_fwhm0 = fwhm0,
                            fit_offset = offset,
                            fit_scale = (if over then fdiv (scale self1) (Fin (of_int k))
                                         else scale self1),
                            fit_edge = edge, fit_dx0 = dx0, fit_dy0 = dy0,
                            fit_kwargs = kw_rest kw\<rparr>;
                    out = run_measure_psf fe args;
                    self2 = self1\<lparr>res := Some (fst out),
                                  star_pos := Some (fst (snd out)),
                                  starmask := Some (snd (snd out))\<rparr>
                in case fst out of
                     [] \<Rightarrow> (Inl IndexError, fs1, self2)
                   | best # others \<Rightarrow> (Inr (), fs1, self2\<lparr>best_fit := Some best\<rparr>))))"

text \<open>
  Lines 144-159: the three assertions, the resampling of the reference onto the header
  of the object (in place, \<^verbatim>\<open>inplace\<close> being left at its default), the mask of the zero
  and non-finite pixels, and the flux calibration against the resampled reference.
  A failure leaves the objects as they are at that point.
\<close>

definition measure_psf ::
  "astro_env \<Rightarrow> utils_env \<Rightarrow> numeric_env \<Rightarrow> fit_env \<Rightarrow> files \<Rightarrow> 'a muse_image_scheme
    \<Rightarrow> 'b image_scheme \<Rightarrow> bool \<Rightarrow> bool \<Rightarrow> int option \<Rightarrow> kwargs
    \<Rightarrow> (error + unit) \<times> files \<times> 'a muse_image_scheme \<times> 'b image_scheme" where
  "measure_psf env ut nu fe fs self reference alpha_free offset oversample kw =
     (if units self \<noteq> units reference then (Inl AssertionError, fs, self, reference)
      else case psf reference of
        None \<Rightarrow> (Inl AssertionError, fs, self, reference)
      | Some ref_psf \<Rightarrow>
          (case psfscale reference of
             None \<Rightarrow> (Inl AttributeError, fs, self, reference)
           | Some ps \<Rightarrow>
               if \<not> feq ps (around3 (pixel_scale_arcsec env (wcs self)))
               then (Inl AssertionError, fs, self, reference)
               else
                 (case resample env reference (Some (header self)) None True of
                    Inl e \<Rightarrow> (Inl e, fs, self, reference)
                  | Inr (reference1, out) \<Rightarrow>
                      (let zeromask = amap (\<lambda>x. if feq x (Fin 0) \<or> \<not> isfinite x
                                                 then Fin 1 else Fin 0) (data self)
                       in case check_flux_calibration ut nu self (data reference1) 15 False of
                            (Inl e, self1) \<Rightarrow> (Inl e, fs, self1, reference1)
                          | (Inr u, self1) \<Rightarrow>
                              (case measure_psf_fit env nu fe fs self1 reference1 ref_psf
                                      zeromask alpha_free offset oversample kw of
                                 (r, fs1, self2) \<Rightarrow> (r, fs1, self2, reference1))))))"

section \<open>A small concrete setting\<close>

text \<open>
  Concrete collaborators and images on which the theorems below are instantiated:
  a sky position maps to the pixel of the same numbers, reprojection adds one to every
  pixel, the pixel area of a transform is the square of its \<^verbatim>\<open>CDELT\<close> card, and the file
  on disk holds a masked 1 x 1 image.
\<close>

definition sample_area :: "wcs \<Rightarrow> fp" where
  "sample_area w =
     (case w of WCS h \<Rightarrow>
        (case map_of h ''CDELT'' of Some (CardNum v) \<Rightarrow> fmul v v | _ \<Rightarrow> Fin 1))"

definition sample_file :: mpdaf_image where
  "sample_file =
     \<lparr>mpdaf_data = MaskedArray 1 1 [Some (Fin 7)],
      mpdaf_data_header = [(''CDELT'', CardNum (Fin 1))],
      mpdaf_wcs = WCS [(''CDELT'', CardNum (Fin 1))],
      mpdaf_shape = (1, 1),
      mpdaf_step = (Fin (1 / 3600), Fin (1 / 3600))\<rparr>"

definition sample_env :: astro_env where
  "sample_env =
     \<lparr>world_to_pixel = (\<lambda>w c. c),
      pixel_to_world = (\<lambda>w p. p),
      footprint_contains = (\<lambda>w c. True),
      proj_plane_pixel_area = sample_area,
      pixel_scale_arcsec = (\<lambda>w. Fin 0.2),
      pixel_scale_matrix = (\<lambda>w. ((Fin 1, Fin 0), (Fin 0, Fin 1))),
      reproject_interp = (\<lambda>a h1 h2. amap (\<lambda>x. fadd x (Fin 1)) a),
      region_contains = (\<lambda>g w c. False),
      cutout2d = (\<lambda>a c s w. Some \<lparr>cutout_data = a, cutout_wcs = w\<rparr>),
      mpdaf_open = (\<lambda>p. sample_file),
      mpdaf_crop = (\<lambda>m. m),
      mpdaf_resample = (\<lambda>m d. m)\<rparr>"

definition sample_star :: gaia_row where
  "sample_star = \<lparr>ra = Fin 20, dec = Fin 20, phot_g_mean_mag = Fin 15\<rparr>"

definition sample_utils :: utils_env where
  "sample_utils =
     \<lparr>query_gaia = (\<lambda>c r. [sample_star]),
      remove_close_stars = (\<lambda>cs. map (\<lambda>c. True) cs),
      find_peaks_2d = (\<lambda>a t. []),
      bin_image = (\<lambda>a n. (1, length (filled_min a), map (\<lambda>v. (v, Fin 1)) (filled_min a)))\<rparr>"

definition sample_header :: header where
  "sample_header = [(''CDELT'', CardNum (Fin 1))]"

definition sample_header2 :: header where
  "sample_header2 = [(''CDELT'', CardNum (Fin 2))]"

definition sample_image :: image where
  "sample_image =
     \<lparr>filename = ''a.fits'', input_dir = ''./'', output_dir = ''./'',
      data = NdArray 1 2 [Fin 3, Fin 4],
      header = sample_header, main_header = None, wcs = WCS sample_header,
      units = ''erg'', galaxy = None, debug = False,
      psf = None, stars = None, psfscale = None\<rparr>"

text \<open>A cutout of six pixels of which exactly five are flagged, and one of which two
  are flagged.\<close>

definition five_flagged :: array where
  "five_flagged = MaskedArray 2 3 [Some (Fin 1), None, None, None, None, None]"

definition two_flagged :: array where
  "two_flagged = MaskedArray 2 3 [Some (Fin 1), Some (Fin 9), None, None, Some (Fin 2), Some (Fin 3)]"

text \<open>An image with an exclusion region, and photutils collaborators that cut out one
  star of 1 x 2 pixels whatever the table holds, use as many stars as given by the
  second parameter and evaluate the model to the given values.\<close>

definition sample_image_galaxy :: image where
  "sample_image_galaxy =
     sample_image\<lparr>galaxy := Some (EllipseSkyRegion (Fin 0, Fin 0) (Fin 1) (Fin 1) (Fin 0))\<rparr>"

definition sample_epsf_star :: epsf_star where
  "sample_epsf_star = \<lparr>star_data = NdArray 1 2 [Fin 5, Fin 6], cutout_center = (Fin 0, Fin 0)\<rparr>"

definition sample_phot :: "fp list \<Rightarrow> nat \<Rightarrow> phot_env" where
  "sample_phot vs n =
     \<lparr>extract_stars = (\<lambda>a t k. [sample_epsf_star]),
      sigma_clipped_median = (\<lambda>a. Fin 1),
      epsf_builder = (\<lambda>k ss. (NdArray 1 1 [Fin 1], \<lparr>fitted = ss, n_good_stars = n\<rparr>)),
      epsf_evaluate = (\<lambda>e xx yy. vs)\<rparr>"

text \<open>
  A MUSE image of four pixels and a reference with a PSF recorded at 0.2 arcsec per
  pixel; binning makes one block per pixel, the regression returns the ratio of the
  first pair of medians as gamma and no offset, no rotation is found, and the fit
  returns its initial width and alpha.
\<close>

definition sample_muse :: muse_image where
  "sample_muse =
     \<lparr>filename = ''m.fits'', input_dir = ''./'', output_dir = ''./'',
      data = NdArray 1 4 [Fin 0, Fin 2, NaN, Fin 4],
      header = sample_header2,
      main_header = Some [(''HIERARCH ESO TPL ID'', CardStr ''MUSE_wfm-noao_obs'')],
      wcs = WCS sample_header2,
      units = ''erg'', galaxy = None, debug = False,
      psf = None, stars = None, psfscale = None,
      scale = Fin 0.2, region_dir = ''./regions'',
      res = None, star_pos = None, starmask = None, best_fit = None\<rparr>"

definition sample_reference :: image where
  "sample_reference =
     sample_image\<lparr>data := NdArray 1 4 [Fin 0, Fin 1, Fin 2, Fin 3],
                   psf := Some (NdArray 1 1 [Fin 1]),
                   psfscale := Some (Fin 0.2)\<rparr>"

definition sample_numeric :: numeric_env where
  "sample_numeric =
     \<lparr>odr_run = (\<lambda>xs ys sx sy. case (xs, ys) of
                    (x # xs', y # ys') \<Rightarrow> (fdiv y x, Fin 0)
                  | _ \<Rightarrow> (Fin 1, Fin 0)),
      ndimage_rotate = (\<lambda>a r. a),
      ndimage_zoom = (\<lambda>a k. (nrows a, ncols a, filled_min a)),
      arctan2 = (\<lambda>y x. Fin 0)\<rparr>"

definition sample_fit :: fit_env where
  "sample_fit =
     \<lparr>locate_stars = (\<lambda>a f rest. (None, amap (\<lambda>x. Fin 0) a)),
      run_measure_psf = (\<lambda>args. ([[fit_fwhm0 args, fit_alpha0 args]],
                                  fit_star_pos args, fit_starmask args))\<rparr>"

definition no_kwargs :: kwargs where
  "no_kwargs = \<lparr>kw_edge = None, kw_dx0 = None, kw_dy0 = None, kw_fwhm0 = None,
                 kw_mask_stars = None, kw_rest = []\<rparr>"

section \<open>Resampling\<close>

lemma resample_header_not_inplace:
  "resample env self (Some h) None False =
     Inr (self\<lparr>data := reproject_interp env (data self) (header self) h\<rparr>,
          Some (amap (\<lambda>x. fmul x (fdiv (proj_plane_pixel_area env (WCS h))
                                        (proj_plane_pixel_area env (wcs self))))
                  (reproject_interp env (data self) (header self) h), WCS h, h))"
  by (simp add: resample_def resample_header_def Let_def)

lemma resample_header_inplace:
  "resample env self (Some h) None True =
     Inr (self\<lparr>data := amap (\<lambda>x. fmul x (fdiv (proj_plane_pixel_area env (WCS h))
                                                (proj_plane_pixel_area env (wcs self))))
                          (reproject_interp env (data self) (header self) h),
                wcs := WCS h, header := h\<rparr>, None)"
  by (simp add: resample_def resample_header_def Let_def)

lemma resample_pixscale_not_inplace_keeps_object:
  "resample env self None (Some s) False = Inr (self', out) \<Longrightarrow> self' = self"
  by (auto simp add: resample_def resample_pixscale_def Let_def split: sum.splits)

text \<open>
  Claim C2. \<^verbatim>\<open>resample\<close> is claimed to leave the object's data, transform and header
  untouched when \<^verbatim>\<open>inplace=False\<close>. In the header mode the attribute \<^verbatim>\<open>data\<close> is
  assigned the reprojected array before \<^verbatim>\<open>inplace\<close> is looked at (line 163): on the
  sample image, resampling onto a header of twice the pixel size with \<^verbatim>\<open>inplace=False\<close>
  returns the triple and leaves an object whose data is the reprojected array (not yet
  scaled by the area factor) while its header and transform are the old ones.
\<close>

theorem resample_header_not_inplace_changes_data:
  "resample sample_env sample_image (Some sample_header2) None False =
     Inr (sample_image\<lparr>data := NdArray 1 2 [Fin 4, Fin 5]\<rparr>,
          Some (NdArray 1 2 [Fin 16, Fin 20], WCS sample_header2, sample_header2))
   \<and> data (sample_image\<lparr>data := NdArray 1 2 [Fin 4, Fin 5]\<rparr>) \<noteq> data sample_image
   \<and> header (sample_image\<lparr>data := NdArray 1 2 [Fin 4, Fin 5]\<rparr>) = header sample_image
   \<and> wcs (sample_image\<lparr>data := NdArray 1 2 [Fin 4, Fin 5]\<rparr>) = wcs sample_image"
  by (simp add: resample_def resample_header_def Let_def sample_env_def sample_image_def
      sample_area_def sample_header_def sample_header2_def)

text \<open>
  Claim C10. In the pixel-scale mode the resampled image is computed from the file named
  by \<^verbatim>\<open>input_dir\<close> and \<^verbatim>\<open>filename\<close>: two states of an image that agree on these two
  attributes, whatever their data arrays (and other attributes) hold, give the same
  resampled image, or fail with the same exception.
\<close>

theorem resample_pixscale_ignores_memory:
  "filename a = filename b \<Longrightarrow> input_dir a = input_dir b \<Longrightarrow>
     resampled inplace (resample env a None (Some s) inplace) =
     resampled inplace (resample env b None (Some s) inplace)"
  by (auto simp add: resample_def resample_pixscale_def resampled_def Let_def
      split: sum.splits)

theorem resample_pixscale_ignores_memory_witness:
  "filename sample_image = filename (sample_image\<lparr>data := NdArray 1 2 [Fin 30, Fin 40]\<rparr>)
   \<and> input_dir sample_image = input_dir (sample_image\<lparr>data := NdArray 1 2 [Fin 30, Fin 40]\<rparr>)
   \<and> data sample_image \<noteq> data (sample_image\<lparr>data := NdArray 1 2 [Fin 30, Fin 40]\<rparr>)
   \<and> resampled True (resample sample_env sample_image None (Some (Fin 0.2)) True) =
       resampled True (resample sample_env
         (sample_image\<lparr>data := NdArray 1 2 [Fin 30, Fin 40]\<rparr>) None (Some (Fin 0.2)) True)"
  using resample_pixscale_ignores_memory
    [of sample_image "sample_image\<lparr>data := NdArray 1 2 [Fin 30, Fin 40]\<rparr>"
        True sample_env "Fin 0.2"]
  by (simp add: sample_image_def)

section \<open>Catalogue curation\<close>

text \<open>
  Claim C1. With no exclusion region set, curation is claimed to skip the exclusion test
  and complete. In \<^verbatim>\<open>get_gaia_catalog\<close> the mask of the exclusion test is assigned only
  when a region is set and read in every case (lines 260-263): with no region every run
  ends in \<^verbatim>\<open>UnboundLocalError\<close>, whatever the catalogue holds, and no catalogue is stored.
\<close>

theorem get_gaia_catalog_without_galaxy_raises:
  "galaxy self = None \<Longrightarrow>
     get_gaia_catalog env ut self center gmin gmax radius = Inl UnboundLocalError"
  by (simp add: get_gaia_catalog_def Let_def)

theorem get_gaia_catalog_without_galaxy_raises_witness:
  "galaxy sample_image = None \<and>
   get_gaia_catalog sample_env sample_utils sample_image (Fin 20, Fin 20) (Fin 10) (Fin 20)
     (Fin 10) = Inl UnboundLocalError"
  using get_gaia_catalog_without_galaxy_raises
    [of sample_image sample_env sample_utils "(Fin 20, Fin 20)" "Fin 10" "Fin 20" "Fin 10"]
  by (simp add: sample_image_def)

section \<open>Star cutouts\<close>

subsection \<open>The maximum of a cutout\<close>

lemma flt_irrefl: "\<not> flt x x"
  by (cases x) auto

lemma flt_asym: "flt x y \<Longrightarrow> \<not> flt y x"
  by (cases x; cases y) auto

lemma flt_trans: "flt x y \<Longrightarrow> flt y z \<Longrightarrow> flt x z"
  by (cases x; cases y; cases z) auto

lemma flt_neg_trans: "\<not> flt x y \<Longrightarrow> flt x z \<Longrightarrow> \<not> isnan y \<Longrightarrow> \<not> flt z y"
  by (cases x; cases y; cases z) auto

lemma argmax_acc_spec:
  "\<not> isnan bv \<Longrightarrow> \<forall>v \<in> set vs. \<not> isnan v \<Longrightarrow>
   (argmax_acc vs i best bv = best \<and> (\<forall>v \<in> set vs. \<not> flt bv v))
   \<or> (\<exists>j < length vs. argmax_acc vs i best bv = i + j \<and> flt bv (vs ! j)
        \<and> (\<forall>v \<in> set vs. \<not> flt (vs ! j) v))"
proof (induction vs arbitrary: i best bv)
  case Nil then show ?case by simp
next
  case (Cons v vs)
  have nv: "\<not> isnan v" and nvs: "\<forall>u \<in> set vs. \<not> isnan u" using Cons.prems by auto
  show ?case
  proof (cases "flt bv v")
    case True
    from Cons.IH [OF nv nvs, of "Suc i" i]
    consider (a) "argmax_acc vs (Suc i) i v = i" "\<forall>u \<in> set vs. \<not> flt v u"
      | (b) j where "j < length vs" "argmax_acc vs (Suc i) i v = Suc i + j"
          "flt v (vs ! j)" "\<forall>u \<in> set vs. \<not> flt (vs ! j) u"
      by blast
    then show ?thesis
    proof cases
      case a
      have "0 < length (v # vs) \<and> argmax_acc (v # vs) i best bv = i + 0
            \<and> flt bv ((v # vs) ! 0) \<and> (\<forall>u \<in> set (v # vs). \<not> flt ((v # vs) ! 0) u)"
        using a True Cons.prems(1) nv by (simp add: flt_irrefl)
      then show ?thesis by blast
    next
      case b
      have "Suc j < length (v # vs) \<and> argmax_acc (v # vs) i best bv = i + Suc j
            \<and> flt bv ((v # vs) ! Suc j) \<and> (\<forall>u \<in> set (v # vs). \<not> flt ((v # vs) ! Suc j) u)"
        using b True Cons.prems(1) nv by (auto intro: flt_trans dest: flt_asym)
      then show ?thesis by blast
    qed
  next
    case False
    from Cons.IH [OF Cons.prems(1) nvs, of "Suc i" best]
    consider (a) "argmax_acc vs (Suc i) best bv = best" "\<forall>u \<in> set vs. \<not> flt bv u"
      | (b) j where "j < length vs" "argmax_acc vs (Suc i) best bv = Suc i + j"
          "flt bv (vs ! j)" "\<forall>u \<in> set vs. \<not> flt (vs ! j) u"
      by blast
    then show ?thesis
    proof cases
      case a
      then show ?thesis using False Cons.prems(1) nv by simp
    next
      case b
      have "\<not> flt (vs ! j) v" using False b(3) nv by (rule flt_neg_trans)
      then have "Suc j < length (v # vs) \<and> argmax_acc (v # vs) i best bv = i + Suc j
            \<and> flt bv ((v # vs) ! Suc j) \<and> (\<forall>u \<in> set (v # vs). \<not> flt ((v # vs) ! Suc j) u)"
        using b False Cons.prems(1) nv by auto
      then show ?thesis by blast
    qed
  qed
qed

lemma argmax_list_spec:
  assumes "xs = v # vs" "\<forall>u \<in> set xs. \<not> isnan u"
  shows "argmax_acc vs 1 0 v < length xs
         \<and> (\<forall>u \<in> set xs. \<not> flt (xs ! argmax_acc vs 1 0 v) u)"
proof -
  have nv: "\<not> isnan v" and nvs: "\<forall>u \<in> set vs. \<not> isnan u" using assms by auto
  from argmax_acc_spec [OF nv nvs, of 1 0]
  consider (a) "argmax_acc vs 1 0 v = 0" "\<forall>u \<in> set vs. \<not> flt v u"
    | (b) j where "j < length vs" "argmax_acc vs 1 0 v = 1 + j"
        "flt v (vs ! j)" "\<forall>u \<in> set vs. \<not> flt (vs ! j) u"
    by auto
  then show ?thesis
  proof cases
    case a
    then show ?thesis using assms(1) by (simp add: flt_irrefl)
  next
    case b
    then show ?thesis using assms(1) by (auto dest: flt_asym)
  qed
qed

lemma all_fin_map: "\<forall>u \<in> set us. isfinite u \<Longrightarrow> \<exists>rs. us = map Fin rs"
proof (induction us)
  case Nil then show ?case by simp
next
  case (Cons u us)
  then obtain rs where "us = map Fin rs" by auto
  moreover obtain r where "u = Fin r" using Cons.prems by (cases u) auto
  ultimately have "u # us = map Fin (r # rs)" by simp
  then show ?case by (rule exI)
qed

lemma nanmax_acc_fin:
  "nanmax_acc (Fin m) (map Fin rs) = Fin (fold max rs m)"
  by (induction rs arbitrary: m) (auto simp: max_def)

lemma fold_max_ge: "(m::real) \<le> fold max rs m"
proof (induction rs arbitrary: m)
  case Nil show ?case by simp
next
  case (Cons r rs)
  have "max r m \<le> fold max rs (max r m)" by (rule Cons.IH)
  then show ?case by simp
qed

lemma fold_max_upper: "x \<in> set rs \<Longrightarrow> (x::real) \<le> fold max rs m"
proof (induction rs arbitrary: m)
  case Nil then show ?case by simp
next
  case (Cons r rs)
  show ?case
  proof (cases "x = r")
    case True
    have "max r m \<le> fold max rs (max r m)" by (rule fold_max_ge)
    with True show ?thesis by simp
  next
    case False
    with Cons.prems have "x \<in> set rs" by simp
    then show ?thesis using Cons.IH by simp
  qed
qed

lemma fold_max_mem: "fold max rs (m::real) = m \<or> fold max rs m \<in> set rs"
proof (induction rs arbitrary: m)
  case Nil show ?case by simp
next
  case (Cons r rs)
  from Cons.IH [of "max r m"] show ?case by (auto simp: max_def split: if_splits)
qed

lemma nanmax_acc_finite_list:
  assumes "us \<noteq> []" "\<forall>u \<in> set us. isfinite u"
  shows "\<exists>m. nanmax_acc NaN us = Fin m \<and> Fin m \<in> set us
             \<and> (\<forall>x. Fin x \<in> set us \<longrightarrow> x \<le> m)"
proof -
  obtain rs where rs: "us = map Fin rs" using all_fin_map [OF assms(2)] by blast
  with assms(1) obtain r rs' where r: "rs = r # rs'" by (cases rs) auto
  have val: "nanmax_acc NaN us = Fin (fold max rs' r)"
    using rs r by (simp add: nanmax_acc_fin)
  have mem: "Fin (fold max rs' r) \<in> set us"
    using fold_max_mem [of rs' r] rs r by auto
  have up: "\<forall>x. Fin x \<in> set us \<longrightarrow> x \<le> fold max rs' r"
    using rs r fold_max_ge [of r rs'] fold_max_upper [of _ rs' r] by auto
  from val mem up show ?thesis by blast
qed

lemma map_filter_id_set: "x \<in> set (List.map_filter (\<lambda>v. v) vs) \<longleftrightarrow> Some x \<in> set vs"
  by (induction vs) (auto simp: List.map_filter_simps split: option.splits)

lemma isfinite_all_masked:
  assumes "isfinite_all (MaskedArray r c vs)"
  shows "(\<forall>x. Some x \<in> set vs \<longrightarrow> isfinite x) \<and> (\<exists>x. Some x \<in> set vs)"
proof -
  from assms have a: "list_all (\<lambda>v. case v of None \<Rightarrow> True | Some x \<Rightarrow> isfinite x) vs"
    and b: "\<not> list_all (\<lambda>v. v = None) vs" by simp_all
  from a have "\<forall>x. Some x \<in> set vs \<longrightarrow> isfinite x"
    by (auto simp: list_all_iff split: option.splits)
  moreover from b have "\<exists>x. Some x \<in> set vs"
    by (auto simp: list_all_iff)
  ultimately show ?thesis by blast
qed

lemma nanmax_masked:
  assumes "isfinite_all (MaskedArray r c vs)"
  shows "\<exists>m. nanmax (MaskedArray r c vs) = Fin m \<and> Some (Fin m) \<in> set vs
             \<and> (\<forall>x. Some (Fin x) \<in> set vs \<longrightarrow> x \<le> m)"
proof -
  let ?us = "List.map_filter (\<lambda>v. v) vs"
  from isfinite_all_masked [OF assms]
  have f: "\<forall>x. Some x \<in> set vs \<longrightarrow> isfinite x" and e: "\<exists>x. Some x \<in> set vs" by simp_all
  from e have ne: "?us \<noteq> []" using map_filter_id_set [of _ vs] by fastforce
  from f have fin: "\<forall>u \<in> set ?us. isfinite u" by (simp add: map_filter_id_set)
  from nanmax_acc_finite_list [OF ne fin] show ?thesis
    by (simp add: nanmax_def map_filter_id_set)
qed

lemma argmax_masked:
  assumes "isfinite_all (MaskedArray r c vs)"
  shows "argmax (MaskedArray r c vs) < length vs
         \<and> vs ! argmax (MaskedArray r c vs) = Some (nanmax (MaskedArray r c vs))"
proof -
  let ?a = "MaskedArray r c vs"
  let ?xs = "filled_min ?a"
  from isfinite_all_masked [OF assms]
  have f: "\<forall>x. Some x \<in> set vs \<longrightarrow> isfinite x" and e: "\<exists>x. Some x \<in> set vs" by simp_all
  from nanmax_masked [OF assms] obtain m where
    m: "nanmax ?a = Fin m" "Some (Fin m) \<in> set vs" "\<forall>x. Some (Fin x) \<in> set vs \<longrightarrow> x \<le> m"
    by blast
  have len: "length ?xs = length vs" by simp
  have nonan: "\<forall>u \<in> set ?xs. \<not> isnan u"
  proof
    fix u assume "u \<in> set ?xs"
    then obtain v where v: "v \<in> set vs" "u = (case v of None \<Rightarrow> NInf | Some x \<Rightarrow> x)" by auto
    show "\<not> isnan u"
    proof (cases v)
      case None with v show ?thesis by simp
    next
      case (Some x)
      with v f have "isfinite x" by auto
      with v Some show ?thesis by (cases x) auto
    qed
  qed
  from e have "vs \<noteq> []" by auto
  then obtain y ys where ys: "?xs = y # ys" by (cases vs) auto
  let ?k = "argmax_acc ys 1 0 y"
  have k: "argmax ?a = ?k" using ys by (simp add: argmax_def)
  note sp = argmax_list_spec [OF ys nonan]
  have klt: "?k < length ?xs" using sp by (rule conjunct1)
  have kmax: "\<forall>u \<in> set ?xs. \<not> flt (?xs ! ?k) u" using sp by (rule conjunct2)
  have klt': "?k < length vs" using klt len by simp
  have xk: "?xs ! ?k = (case vs ! ?k of None \<Rightarrow> NInf | Some x \<Rightarrow> x)"
    using klt' by simp
  have "Fin m \<in> set ?xs" using m(2) by force
  with kmax have nlt: "\<not> flt (?xs ! ?k) (Fin m)" by blast
  obtain x where x: "vs ! ?k = Some x"
  proof (cases "vs ! ?k")
    case None
    with xk nlt show ?thesis by simp
  next
    case (Some x) with that show ?thesis by blast
  qed
  have xin: "Some x \<in> set vs" using x klt' by (metis nth_mem)
  with f have "isfinite x" by blast
  then obtain q where q: "x = Fin q" by (cases x) auto
  have "q \<le> m" using m(3) xin q by blast
  moreover have "\<not> q < m" using nlt xk x q by simp
  ultimately have "q = m" by simp
  with x q m(1) k klt' show ?thesis by simp
qed

lemma cutout_checks_Emit:
  assumes "cutout_checks env dat w coord = Emit z"
  shows "isfinite_all (cutout_data z) \<and> is_masked (cutout_data z)"
proof -
  from assms obtain z' where z': "cutout2d env dat coord (Fin 7) w = Some z'"
    by (cases "cutout2d env dat coord (Fin 7) w") (auto simp: cutout_checks_def)
  from assms z' have "z' = z"
    by (auto simp: cutout_checks_def split: if_splits sum.splits)
  with assms z' show ?thesis
    by (cases "cutout_data z") (auto simp: cutout_checks_def split: if_splits sum.splits)
qed

subsection \<open>The guards on a cutout\<close>

text \<open>
  Claim C4, as the code has it. For an entry whose cutout is a masked array (what the
  resampled image gives), the entry is skipped at the head of the loop body exactly when
  \<^verbatim>\<open>Cutout2D\<close> raises \<^verbatim>\<open>NoOverlapError\<close>, or the finiteness test over the pixels that
  are not flagged fails, or at least 5 pixels are flagged; no exception is raised, a
  skipped entry leaves the table as it is and the loop goes on with the remaining
  entries; an entry with fewer than 5 flagged pixels and a finite cutout goes on to peak
  detection.
\<close>

theorem star_cutout_rejection:
  "(\<forall>z. cutout2d env dat coord (Fin 7) w = Some z \<longrightarrow> is_masked (cutout_data z)) \<Longrightarrow>
   (cutout_checks env dat w coord = Skip \<longleftrightarrow>
      (cutout2d env dat coord (Fin 7) w = None
       \<or> (\<exists>z. cutout2d env dat coord (Fin 7) w = Some z \<and>
             (\<not> isfinite_all (cutout_data z)
              \<or> (\<exists>n. mask_sum (cutout_data z) = Inr n \<and> 5 \<le> n)))))
   \<and> (\<forall>e. cutout_checks env dat w coord \<noteq> Raise e)
   \<and> (\<forall>z. cutout_checks env dat w coord = Emit z \<longleftrightarrow>
         (cutout2d env dat coord (Fin 7) w = Some z \<and> isfinite_all (cutout_data z)
          \<and> (\<exists>n. mask_sum (cutout_data z) = Inr n \<and> n < 5)))
   \<and> (cutout_checks env dat w coord = Skip \<longrightarrow>
         star_entry env ut dat w coord = Skip
         \<and> startable_loop env ut dat w (coord # coords) tbl =
             startable_loop env ut dat w coords tbl)
   \<and> (\<forall>z. cutout_checks env dat w coord = Emit z \<longrightarrow>
         star_entry env ut dat w coord =
           (case refine_center ut z of
              None \<Rightarrow> Skip
            | Some guess \<Rightarrow> Emit (refined_row env w z guess)))"
proof -
  assume m: "\<forall>z. cutout2d env dat coord (Fin 7) w = Some z \<longrightarrow> is_masked (cutout_data z)"
  show ?thesis
  proof (cases "cutout2d env dat coord (Fin 7) w")
    case None
    then show ?thesis by (simp add: cutout_checks_def star_entry_def)
  next
    case (Some z)
    with m have "is_masked (cutout_data z)" by simp
    then obtain r c vs where a: "cutout_data z = MaskedArray r c vs"
      by (cases "cutout_data z") auto
    show ?thesis using Some a
      by (auto simp add: cutout_checks_def star_entry_def)
  qed
qed

theorem star_cutout_rejection_witness:
  "is_masked two_flagged
   \<and> cutout_checks sample_env two_flagged (WCS sample_header) (Fin 20, Fin 20) =
       Emit \<lparr>cutout_data = two_flagged, cutout_wcs = WCS sample_header\<rparr>
   \<and> mask_sum two_flagged = Inr 2"
proof -
  have h: "\<forall>z. cutout2d sample_env two_flagged (Fin 20, Fin 20) (Fin 7) (WCS sample_header)
                 = Some z \<longrightarrow> is_masked (cutout_data z)"
    by (auto simp add: sample_env_def two_flagged_def)
  have c: "cutout2d sample_env two_flagged (Fin 20, Fin 20) (Fin 7) (WCS sample_header) =
             Some \<lparr>cutout_data = two_flagged, cutout_wcs = WCS sample_header\<rparr>"
    by (simp add: sample_env_def)
  have s: "mask_sum two_flagged = Inr 2" "isfinite_all two_flagged"
    by (simp_all add: two_flagged_def)
  have k: "is_masked two_flagged" by (simp add: two_flagged_def)
  from star_cutout_rejection [OF h, of sample_utils "[]" "[]"] c s k show ?thesis
    by simp
qed

text \<open>
  Claim C4, as stated, has entries with at most 5 flagged pixels go on to peak detection.
  The guard is \<^verbatim>\<open>zoom.data.mask.sum() >= 5\<close> (line 307): a cutout that overlaps the image,
  has a finite value at its one valid pixel and exactly 5 flagged pixels is skipped.
\<close>

theorem five_flagged_pixels_are_skipped:
  "cutout2d sample_env five_flagged (Fin 20, Fin 20) (Fin 7) (WCS sample_header) =
     Some \<lparr>cutout_data = five_flagged, cutout_wcs = WCS sample_header\<rparr>
   \<and> isfinite_all five_flagged
   \<and> mask_sum five_flagged = Inr 5
   \<and> cutout_checks sample_env five_flagged (WCS sample_header) (Fin 20, Fin 20) = Skip"
  by (simp add: cutout_checks_def sample_env_def five_flagged_def)

subsection \<open>The centre of a star\<close>

text \<open>
  Claim C9. For a cutout that passed the guards, the threshold handed to
  \<^verbatim>\<open>find_peaks_2d\<close> is 5 percent of the largest valid pixel \<open>m\<close> of the cutout; with
  more than one peak the entry is skipped; with exactly one peak the row is built from
  that peak; with no peak it is built from the position (row, column) of a pixel that
  holds the maximum \<open>m\<close>.
\<close>

theorem centroid_refinement:
  assumes "cutout_checks env dat w coord = Emit z"
  shows "\<exists>r c vs m.
     cutout_data z = MaskedArray r c vs
     \<and> nanmax (cutout_data z) = Fin m \<and> Some (Fin m) \<in> set vs
     \<and> (\<forall>x. Some (Fin x) \<in> set vs \<longrightarrow> x \<le> m)
     \<and> (1 < length (find_peaks_2d ut (cutout_data z) (Fin (0.05 * m))) \<longrightarrow>
          star_entry env ut dat w coord = Skip)
     \<and> (\<forall>p. find_peaks_2d ut (cutout_data z) (Fin (0.05 * m)) = [p] \<longrightarrow>
          star_entry env ut dat w coord = Emit (refined_row env w z p))
     \<and> (find_peaks_2d ut (cutout_data z) (Fin (0.05 * m)) = [] \<longrightarrow>
          (\<exists>k < length vs. vs ! k = Some (Fin m)
             \<and> star_entry env ut dat w coord = Emit (refined_row env w z (k div c, k mod c))))"
proof -
  from cutout_checks_Emit [OF assms]
  have fin: "isfinite_all (cutout_data z)" and msk: "is_masked (cutout_data z)" by simp_all
  from msk obtain r c vs where a: "cutout_data z = MaskedArray r c vs"
    by (cases "cutout_data z") auto
  from fin a have fin': "isfinite_all (MaskedArray r c vs)" by simp
  from nanmax_masked [OF fin'] obtain m where
    m: "nanmax (MaskedArray r c vs) = Fin m" "Some (Fin m) \<in> set vs"
       "\<forall>x. Some (Fin x) \<in> set vs \<longrightarrow> x \<le> m" by blast
  from argmax_masked [OF fin'] m(1)
  have k: "argmax (MaskedArray r c vs) < length vs"
          "vs ! argmax (MaskedArray r c vs) = Some (Fin m)" by simp_all
  let ?peaks = "find_peaks_2d ut (cutout_data z) (Fin (0.05 * m))"
  have thr: "fmul (Fin 0.05) (nanmax (cutout_data z)) = Fin (0.05 * m)"
    using a m(1) by simp
  have many: "1 < length ?peaks \<longrightarrow> star_entry env ut dat w coord = Skip"
    using assms thr by (simp add: star_entry_def refine_center_def Let_def)
  have one: "\<forall>p. ?peaks = [p] \<longrightarrow> star_entry env ut dat w coord = Emit (refined_row env w z p)"
    using assms thr by (simp add: star_entry_def refine_center_def Let_def)
  have none: "?peaks = [] \<longrightarrow>
      star_entry env ut dat w coord =
        Emit (refined_row env w z (argmax (MaskedArray r c vs) div c,
                                   argmax (MaskedArray r c vs) mod c))"
    using assms thr a
    by (simp add: star_entry_def refine_center_def Let_def unravel_index_def shape_def)
  from none k have none': "?peaks = [] \<longrightarrow>
      (\<exists>k < length vs. vs ! k = Some (Fin m)
         \<and> star_entry env ut dat w coord = Emit (refined_row env w z (k div c, k mod c)))"
    by blast
  have nm: "nanmax (cutout_data z) = Fin m" using a m(1) by simp
  show ?thesis
    apply (rule exI [of _ r], rule exI [of _ c], rule exI [of _ vs], rule exI [of _ m])
    using a nm m(2) m(3) many one none' by (intro conjI) assumption+
qed

theorem centroid_refinement_witness:
  "cutout_checks sample_env two_flagged (WCS sample_header) (Fin 20, Fin 20) =
     Emit \<lparr>cutout_data = two_flagged, cutout_wcs = WCS sample_header\<rparr>
   \<and> star_entry sample_env sample_utils two_flagged (WCS sample_header) (Fin 20, Fin 20) =
       Emit \<lparr>row_x = Fin 1, row_y = Fin 0, row_ra = Fin 1, row_dec = Fin 0\<rparr>"
proof -
  let ?z = "\<lparr>cutout_data = two_flagged, cutout_wcs = WCS sample_header\<rparr>"
  have h: "cutout_checks sample_env two_flagged (WCS sample_header) (Fin 20, Fin 20) = Emit ?z"
    by (simp add: cutout_checks_def sample_env_def two_flagged_def)
  from centroid_refinement [OF h, of sample_utils]
  obtain r c vs m where
    a: "cutout_data ?z = MaskedArray r c vs" and mx: "Some (Fin m) \<in> set vs"
      and up: "\<forall>x. Some (Fin x) \<in> set vs \<longrightarrow> x \<le> m"
      and none: "find_peaks_2d sample_utils (cutout_data ?z) (Fin (0.05 * m)) = [] \<longrightarrow>
          (\<exists>k < length vs. vs ! k = Some (Fin m)
             \<and> star_entry sample_env sample_utils two_flagged (WCS sample_header) (Fin 20, Fin 20)
                 = Emit (refined_row sample_env (WCS sample_header) ?z (k div c, k mod c)))"
    by blast
  from a have vs: "r = 2" "c = 3"
      "vs = [Some (Fin 1), Some (Fin 9), None, None, Some (Fin 2), Some (Fin 3)]"
    by (simp_all add: two_flagged_def)
  from up vs have "9 \<le> m" by simp
  with mx vs have m9: "m = 9" by auto
  have "find_peaks_2d sample_utils (cutout_data ?z) (Fin (0.05 * m)) = []"
    by (simp add: sample_utils_def)
  with none obtain k where k: "k < length vs" "vs ! k = Some (Fin m)"
    "star_entry sample_env sample_utils two_flagged (WCS sample_header) (Fin 20, Fin 20)
       = Emit (refined_row sample_env (WCS sample_header) ?z (k div c, k mod c))"
    by blast
  from k(1) vs have "k \<in> {0, 1, 2, 3, 4, 5}" by auto
  with k(2) vs m9 have "k = 1" by auto
  with k(3) vs have "star_entry sample_env sample_utils two_flagged (WCS sample_header)
      (Fin 20, Fin 20) = Emit \<lparr>row_x = Fin 1, row_y = Fin 0, row_ra = Fin 1, row_dec = Fin 0\<rparr>"
    by (simp add: refined_row_def sample_env_def)
  with h show ?thesis by simp
qed

section \<open>Building the PSF\<close>

subsection \<open>Sums of finite values\<close>

lemma fsum_Nil: "fsum [] = Fin 0" by (simp add: fsum_def)
lemma fsum_Cons: "fsum (v # vs) = fadd v (fsum vs)" by (simp add: fsum_def)

lemma fadd_Fin_cases: "fadd x y = Fin f \<Longrightarrow> \<exists>a b. x = Fin a \<and> y = Fin b \<and> f = a + b"
  by (cases x; cases y) auto

lemma fsum_map_Fin: "fsum (map Fin rs) = Fin (sum_list rs)"
  by (induction rs) (simp_all add: fsum_Nil fsum_Cons)

lemma fsum_Fin_values: "fsum vs = Fin f \<Longrightarrow> \<exists>rs. vs = map Fin rs \<and> f = sum_list rs"
proof (induction vs arbitrary: f)
  case Nil
  then have "[] = map Fin [] \<and> f = sum_list []" by (simp add: fsum_Nil)
  then show ?case by (rule exI)
next
  case (Cons v vs)
  from Cons.prems have "fadd v (fsum vs) = Fin f" by (simp add: fsum_Cons)
  from fadd_Fin_cases [OF this] obtain a b where
    ab: "v = Fin a" "fsum vs = Fin b" "f = a + b" by blast
  from Cons.IH [OF ab(2)] obtain rs where rs: "vs = map Fin rs" "b = sum_list rs" by blast
  have "v # vs = map Fin (a # rs) \<and> f = sum_list (a # rs)" using ab rs by simp
  then show ?case by (rule exI)
qed

lemma sum_list_divide: "sum_list (map (\<lambda>x. x / f) rs) = sum_list rs / (f::real)"
  by (induction rs) (simp_all add: add_divide_distrib)

lemma normalize_psf_finite:
  assumes "fsum vs = Fin f" "f \<noteq> 0"
  shows "normalize_psf vs = (if \<bar>1 - f\<bar> < 1 / 10000 then vs else map (\<lambda>x. fdiv x (Fin f)) vs)"
    and "\<exists>s. fsum (normalize_psf vs) = Fin s \<and> \<bar>s - 1\<bar> < 1 / 10000"
proof -
  show eq: "normalize_psf vs =
      (if \<bar>1 - f\<bar> < 1 / 10000 then vs else map (\<lambda>x. fdiv x (Fin f)) vs)"
    using assms(1) by (simp add: normalize_psf_def fsub_def Let_def)
  from fsum_Fin_values [OF assms(1)] obtain rs where rs: "vs = map Fin rs" "f = sum_list rs"
    by blast
  show "\<exists>s. fsum (normalize_psf vs) = Fin s \<and> \<bar>s - 1\<bar> < 1 / 10000"
  proof (cases "\<bar>1 - f\<bar> < 1 / 10000")
    case True
    with eq assms(1) have "fsum (normalize_psf vs) = Fin f \<and> \<bar>f - 1\<bar> < 1 / 10000"
      by (simp add: abs_minus_commute)
    then show ?thesis by (rule exI)
  next
    case False
    have "map (\<lambda>x. fdiv x (Fin f)) vs = map Fin (map (\<lambda>x. x / f) rs)"
      using rs(1) assms(2) by simp
    then have "fsum (map (\<lambda>x. fdiv x (Fin f)) vs) = Fin (sum_list rs / f)"
      by (simp add: fsum_map_Fin sum_list_divide del: map_map)
    also have "sum_list rs / f = 1" using rs(2) assms(2) by simp
    finally have "fsum (normalize_psf vs) = Fin 1 \<and> \<bar>(1::real) - 1\<bar> < 1 / 10000"
      using eq False by simp
    then show ?thesis by (rule exI)
  qed
qed

subsection \<open>The steps before the kernel is stored\<close>

lemma build_psf_grid_Inr:
  assumes "build_psf_grid env self pixscale = Inr (self1, dat, w)"
  shows "\<exists>sc. self1 = self\<lparr>psfscale := Some sc\<rparr>"
proof (cases pixscale)
  case None
  with assms show ?thesis by (auto simp: build_psf_grid_def)
next
  case (Some s)
  with assms obtain self' out where
    r: "resample env self None (Some s) False = Inr (self', out)"
    by (auto simp: build_psf_grid_def split: sum.splits)
  then have "self' = self"
    by (auto simp add: resample_def resample_pixscale_def Let_def split: sum.splits)
  with assms Some r show ?thesis
    by (auto simp: build_psf_grid_def split: option.splits)
qed

lemma get_gaia_catalog_Inr:
  "get_gaia_catalog env ut self center gmin gmax radius = Inr self1 \<Longrightarrow>
     \<exists>t. self1 = self\<lparr>stars := Some t\<rparr>"
  by (auto simp: get_gaia_catalog_def Let_def split: option.splits)

lemma build_psf_table_Inr:
  assumes "build_psf_table env ut fs self dat w center gmin gmax stars_file radius =
             (Inr stars_tbl, fs1, self1)"
  shows "(\<exists>t. self1 = self\<lparr>stars := Some t\<rparr>)
         \<and> (fs1 = fs \<or> (\<exists>cs. fs1 = fs(stars_path self \<mapsto> StarsDat cs)))"
proof (cases stars_file)
  case None
  with assms obtain self' where
    g: "get_gaia_catalog env ut self center gmin gmax radius = Inr self'"
    by (auto simp: build_psf_table_def split: sum.splits)
  from get_gaia_catalog_Inr [OF g] obtain t where t: "self' = self\<lparr>stars := Some t\<rparr>" by blast
  have sp: "stars_path self' = stars_path self" using t by (simp add: stars_path_def)
  from assms None g t sp show ?thesis
    by (auto simp: build_psf_table_def split: sum.splits)
next
  case (Some f)
  with assms show ?thesis
    by (auto simp: build_psf_table_def Let_def split: option.splits disk_file.splits)
qed

lemma sample_grid:
  "build_psf_grid sample_env sample_image_galaxy (Some (Fin 0.2)) =
     Inr (sample_image_galaxy\<lparr>psfscale := Some (Fin 0.2)\<rparr>,
          MaskedArray 1 1 [Some (Fin 7)], WCS [(''CDELT'', CardNum (Fin 1))])"
  by (simp add: build_psf_grid_def resample_def resample_pixscale_def Let_def sample_env_def
      sample_file_def)

lemma sample_table:
  "build_psf_table sample_env sample_utils Map.empty
     (sample_image_galaxy\<lparr>psfscale := Some (Fin 0.2)\<rparr>)
     (MaskedArray 1 1 [Some (Fin 7)]) (WCS [(''CDELT'', CardNum (Fin 1))])
     (Fin 20, Fin 20) (Fin 10) (Fin 20) None (Fin 10) =
   (Inr [], [''./a.stars.dat'' \<mapsto> StarsDat []],
    sample_image_galaxy\<lparr>psfscale := Some (Fin 0.2), stars := Some (GaiaTable [])\<rparr>)"
  by (simp add: build_psf_table_def get_gaia_catalog_def build_startable_def Let_def
      sample_env_def sample_utils_def sample_image_galaxy_def sample_image_def sample_star_def
      select_def fge_def fle_def stars_path_def path_join_def)

lemma sample_kernel:
  "build_psf_kernel (sample_phot vs n) (MaskedArray 1 1 [Some (Fin 7)]) [] 35 4 =
     Inr ((1, 2), vs, \<lparr>fitted = [\<lparr>star_data = NdArray 1 2 [Fin 4, Fin 5],
                                   cutout_center = (Fin 0, Fin 0)\<rparr>], n_good_stars = n\<rparr>)"
  by (simp add: build_psf_kernel_def sample_phot_def sample_epsf_star_def Let_def shape_def
      fsub_def)

subsection \<open>The kernel that is stored\<close>

text \<open>
  Claim C5, as the code has it. When the total flux of the built kernel is finite and
  not zero, the kernel stored in the object and written to the PSF file is the built one
  if its flux is within 1e-4 of 1 and the built one divided by its flux otherwise, and
  it sums to 1 within 1e-4.
\<close>

theorem stored_psf_is_normalised:
  assumes "fsum vs = Fin f" and "f \<noteq> 0" and "0 < n" and "psfscale self = Some sc"
  shows "\<exists>k s.
     store_psf fs self shp vs n =
       (Inr (), fs(psf_path self \<mapsto> PsfFits (NdArray (fst shp) (snd shp) k) sc),
        self\<lparr>psf := Some (NdArray (fst shp) (snd shp) k)\<rparr>)
     \<and> k = (if \<bar>1 - f\<bar> < 1 / 10000 then vs else map (\<lambda>x. fdiv x (Fin f)) vs)
     \<and> fsum k = Fin s \<and> \<bar>s - 1\<bar> < 1 / 10000"
proof -
  from normalize_psf_finite(2) [OF assms(1,2)] obtain s where
    s: "fsum (normalize_psf vs) = Fin s" "\<bar>s - 1\<bar> < 1 / 10000" by blast
  have st: "store_psf fs self shp vs n =
       (Inr (), fs(psf_path self \<mapsto> PsfFits (NdArray (fst shp) (snd shp) (normalize_psf vs)) sc),
        self\<lparr>psf := Some (NdArray (fst shp) (snd shp) (normalize_psf vs))\<rparr>)"
    using assms(3,4) by (simp add: store_psf_def Let_def psf_path_def)
  show ?thesis
    apply (rule exI [of _ "normalize_psf vs"], rule exI [of _ s])
    using st s normalize_psf_finite(1) [OF assms(1,2)] by (intro conjI) assumption+
qed

theorem stored_psf_is_normalised_witness:
  "store_psf Map.empty (sample_image\<lparr>psfscale := Some (Fin 0.2)\<rparr>) (1, 2) [Fin 1, Fin 3] 1 =
     (Inr (), [''./a.psf.fits'' \<mapsto> PsfFits (NdArray 1 2 [Fin (1 / 4), Fin (3 / 4)]) (Fin 0.2)],
      sample_image\<lparr>psfscale := Some (Fin 0.2),
                    psf := Some (NdArray 1 2 [Fin (1 / 4), Fin (3 / 4)])\<rparr>)"
proof -
  have h1: "fsum [Fin 1, Fin 3] = Fin 4" by (simp add: fsum_def)
  have h2: "(4::real) \<noteq> 0" by simp
  have h3: "(0::nat) < 1" by simp
  have h4: "psfscale (sample_image\<lparr>psfscale := Some (Fin 0.2)\<rparr>) = Some (Fin 0.2)" by simp
  have p: "psf_path (sample_image\<lparr>psfscale := Some (Fin 0.2)\<rparr>) = ''./a.psf.fits''"
    by (simp add: psf_path_def sample_image_def path_join_def)
  from stored_psf_is_normalised [OF h1 h2 h3 h4, of Map.empty "(1, 2)"] p
  show ?thesis by (auto simp: sample_image_def)
qed

text \<open>
  Claim C5, as stated, holds for every PSF the builder produces. The division has no
  guard: on the sample image, with a builder that uses two stars and a model that
  evaluates to the values 1 and -1 (total flux 0), the build completes, and the kernel
  it stores and writes holds the two infinities, whose sum is NaN and not within 1e-4
  of 1.
\<close>

theorem zero_flux_psf_is_not_normalised:
  "build_psf sample_env sample_utils (sample_phot [Fin 1, Fin (- 1)] 2) Map.empty
     sample_image_galaxy (Fin 20, Fin 20) (Fin 10) (Fin 20) None (Fin 10) 35 (Some (Fin 0.2)) 4
   = (Inr (),
      [''./a.stars.dat'' \<mapsto> StarsDat [],
       ''./a.psf.fits'' \<mapsto> PsfFits (NdArray 1 2 [PInf, NInf]) (Fin 0.2)],
      sample_image_galaxy\<lparr>psfscale := Some (Fin 0.2), stars := Some (GaiaTable []),
                           psf := Some (NdArray 1 2 [PInf, NInf])\<rparr>)
   \<and> fsum [PInf, NInf] = NaN
   \<and> \<not> flt (fabs (fsub (fsum [PInf, NInf]) (Fin 1))) (Fin 0.0001)"
proof -
  have nz: "normalize_psf [Fin 1, Fin (- 1)] = [PInf, NInf]"
    by (simp add: normalize_psf_def fsum_def fsub_def Let_def inf_signed_def)
  have p: "psf_path (sample_image_galaxy\<lparr>psfscale := Some (Fin 0.2),
             stars := Some (GaiaTable []), psf := Some (NdArray 1 2 [PInf, NInf])\<rparr>)
           = ''./a.psf.fits''"
    by (simp add: psf_path_def sample_image_galaxy_def sample_image_def path_join_def)
  have "build_psf sample_env sample_utils (sample_phot [Fin 1, Fin (- 1)] 2) Map.empty
     sample_image_galaxy (Fin 20, Fin 20) (Fin 10) (Fin 20) None (Fin 10) 35 (Some (Fin 0.2)) 4
   = (Inr (),
      [''./a.stars.dat'' \<mapsto> StarsDat [],
       ''./a.psf.fits'' \<mapsto> PsfFits (NdArray 1 2 [PInf, NInf]) (Fin 0.2)],
      sample_image_galaxy\<lparr>psfscale := Some (Fin 0.2), stars := Some (GaiaTable []),
                           psf := Some (NdArray 1 2 [PInf, NInf])\<rparr>)"
  proof -
    have "build_psf sample_env sample_utils (sample_phot [Fin 1, Fin (- 1)] 2) Map.empty
       sample_image_galaxy (Fin 20, Fin 20) (Fin 10) (Fin 20) None (Fin 10) 35 (Some (Fin 0.2)) 4
     = store_psf [''./a.stars.dat'' \<mapsto> StarsDat []]
         (sample_image_galaxy\<lparr>psfscale := Some (Fin 0.2), stars := Some (GaiaTable [])\<rparr>)
         (1, 2) [Fin 1, Fin (- 1)] 2"
      by (simp only: build_psf_def sample_grid sample_table sample_kernel sum.case prod.case
          fitted_stars.select_convs)
    also have "\<dots> = (Inr (),
        [''./a.stars.dat'' \<mapsto> StarsDat [],
         ''./a.psf.fits'' \<mapsto> PsfFits (NdArray 1 2 [PInf, NInf]) (Fin 0.2)],
        sample_image_galaxy\<lparr>psfscale := Some (Fin 0.2), stars := Some (GaiaTable []),
                             psf := Some (NdArray 1 2 [PInf, NInf])\<rparr>)"
      using nz p by (simp add: store_psf_def Let_def)
    finally show ?thesis .
  qed
  then show ?thesis by (simp add: fsum_def fsub_def)
qed

subsection \<open>The exit when no star was used\<close>

text \<open>
  Claim C6. Once the build has reached the builder: if the builder used no star, the
  build ends in \<^verbatim>\<open>SystemExit\<close> with the message of \<^verbatim>\<open>sys.exit\<close>, the PSF attribute is
  the one the object had before the build and no PSF file was written (a PSF file found
  afterwards was there before); if it used at least one star, the build returns, with
  the kernel stored in the object and written to the PSF file with the recorded scale.
\<close>

theorem build_psf_needs_good_star:
  assumes grid: "build_psf_grid env self pixscale = Inr (self1, dat, w)"
    and tbl: "build_psf_table env ut fs self1 dat w center gmin gmax stars_file radius =
                (Inr stars_tbl, fs1, self2)"
    and ker: "build_psf_kernel ph dat stars_tbl npix oversampling = Inr (shp, vs, fitted_stars)"
  shows "(n_good_stars fitted_stars = 0 \<longrightarrow>
            build_psf env ut ph fs self center gmin gmax stars_file radius npix pixscale
              oversampling = (Inl (SystemExit ''No stars were used for the fit.''), fs1, self2)
            \<and> psf self2 = psf self
            \<and> (\<forall>p k sc. fs1 p = Some (PsfFits k sc) \<longrightarrow> fs p = Some (PsfFits k sc)))
       \<and> (0 < n_good_stars fitted_stars \<longrightarrow>
            (\<exists>sc. psfscale self2 = Some sc
               \<and> build_psf env ut ph fs self center gmin gmax stars_file radius npix pixscale
                   oversampling =
                   (Inr (),
                    fs1(psf_path self \<mapsto>
                          PsfFits (NdArray (fst shp) (snd shp) (normalize_psf vs)) sc),
                    self2\<lparr>psf := Some (NdArray (fst shp) (snd shp) (normalize_psf vs))\<rparr>)))"
proof -
  from build_psf_grid_Inr [OF grid] obtain sc where s1: "self1 = self\<lparr>psfscale := Some sc\<rparr>"
    by blast
  from build_psf_table_Inr [OF tbl] obtain t where
    s2: "self2 = self1\<lparr>stars := Some t\<rparr>"
    and f1: "fs1 = fs \<or> (\<exists>cs. fs1 = fs(stars_path self1 \<mapsto> StarsDat cs))" by blast
  have run: "build_psf env ut ph fs self center gmin gmax stars_file radius npix pixscale
      oversampling = store_psf fs1 self2 shp vs (n_good_stars fitted_stars)"
    using grid tbl ker by (simp add: build_psf_def)
  have psf2: "psf self2 = psf self" using s1 s2 by simp
  have sc2: "psfscale self2 = Some sc" using s1 s2 by simp
  have pp: "psf_path (self2\<lparr>psf := Some (NdArray (fst shp) (snd shp) (normalize_psf vs))\<rparr>)
      = psf_path self" using s1 s2 by (simp add: psf_path_def)
  have old: "\<forall>p k sc. fs1 p = Some (PsfFits k sc) \<longrightarrow> fs p = Some (PsfFits k sc)"
    using f1 by (auto split: if_splits)
  have zero: "n_good_stars fitted_stars = 0 \<longrightarrow>
      build_psf env ut ph fs self center gmin gmax stars_file radius npix pixscale
        oversampling = (Inl (SystemExit ''No stars were used for the fit.''), fs1, self2)"
    using run by (simp add: store_psf_def)
  have pos: "0 < n_good_stars fitted_stars \<longrightarrow>
      build_psf env ut ph fs self center gmin gmax stars_file radius npix pixscale
        oversampling =
        (Inr (),
         fs1(psf_path self \<mapsto> PsfFits (NdArray (fst shp) (snd shp) (normalize_psf vs)) sc),
         self2\<lparr>psf := Some (NdArray (fst shp) (snd shp) (normalize_psf vs))\<rparr>)"
    using run sc2 pp by (simp add: store_psf_def Let_def)
  from zero pos psf2 sc2 old show ?thesis by blast
qed

theorem build_psf_needs_good_star_witness:
  "build_psf sample_env sample_utils (sample_phot [Fin 1, Fin 3] 0) Map.empty
     sample_image_galaxy (Fin 20, Fin 20) (Fin 10) (Fin 20) None (Fin 10) 35 (Some (Fin 0.2)) 4
   = (Inl (SystemExit ''No stars were used for the fit.''),
      [''./a.stars.dat'' \<mapsto> StarsDat []],
      sample_image_galaxy\<lparr>psfscale := Some (Fin 0.2), stars := Some (GaiaTable [])\<rparr>)
   \<and> build_psf sample_env sample_utils (sample_phot [Fin 1, Fin 3] 2) Map.empty
     sample_image_galaxy (Fin 20, Fin 20) (Fin 10) (Fin 20) None (Fin 10) 35 (Some (Fin 0.2)) 4
   = (Inr (),
      [''./a.stars.dat'' \<mapsto> StarsDat [],
       ''./a.psf.fits'' \<mapsto> PsfFits (NdArray 1 2 [Fin (1 / 4), Fin (3 / 4)]) (Fin 0.2)],
      sample_image_galaxy\<lparr>psfscale := Some (Fin 0.2), stars := Some (GaiaTable []),
                           psf := Some (NdArray 1 2 [Fin (1 / 4), Fin (3 / 4)])\<rparr>)"
proof -
  have p: "psf_path sample_image_galaxy = ''./a.psf.fits''"
    by (simp add: psf_path_def sample_image_galaxy_def sample_image_def path_join_def)
  have nz: "normalize_psf [Fin 1, Fin 3] = [Fin (1 / 4), Fin (3 / 4)]"
    by (simp add: normalize_psf_def fsum_def fsub_def Let_def)
  from build_psf_needs_good_star [OF sample_grid sample_table sample_kernel [of "[Fin 1, Fin 3]" 0]]
  have a: "build_psf sample_env sample_utils (sample_phot [Fin 1, Fin 3] 0) Map.empty
     sample_image_galaxy (Fin 20, Fin 20) (Fin 10) (Fin 20) None (Fin 10) 35 (Some (Fin 0.2)) 4
   = (Inl (SystemExit ''No stars were used for the fit.''),
      [''./a.stars.dat'' \<mapsto> StarsDat []],
      sample_image_galaxy\<lparr>psfscale := Some (Fin 0.2), stars := Some (GaiaTable [])\<rparr>)"
    by simp
  from build_psf_needs_good_star [OF sample_grid sample_table sample_kernel [of "[Fin 1, Fin 3]" 2]]
  have b: "build_psf sample_env sample_utils (sample_phot [Fin 1, Fin 3] 2) Map.empty
     sample_image_galaxy (Fin 20, Fin 20) (Fin 10) (Fin 20) None (Fin 10) 35 (Some (Fin 0.2)) 4
   = (Inr (),
      [''./a.stars.dat'' \<mapsto> StarsDat [],
       ''./a.psf.fits'' \<mapsto> PsfFits (NdArray 1 2 [Fin (1 / 4), Fin (3 / 4)]) (Fin 0.2)],
      sample_image_galaxy\<lparr>psfscale := Some (Fin 0.2), stars := Some (GaiaTable []),
                           psf := Some (NdArray 1 2 [Fin (1 / 4), Fin (3 / 4)])\<rparr>)"
    using p nz by simp
  from a b show ?thesis by simp
qed

section \<open>Flux calibration\<close>

lemma select_Nil [simp]: "select [] xs = []" "select m [] = []"
  by (simp_all add: select_def)

lemma select_Cons [simp]:
  "select (b # m) (x # xs) = (if b then x # select m xs else select m xs)"
  by (simp add: select_def)

lemma select_blocks_fst:
  "select (map2 P (map fst mb) (map fst rb)) (map g mb) =
     map (\<lambda>(m, r). g m) (filter (\<lambda>(m, r). P (fst m) (fst r)) (zip mb rb))"
proof (induction mb arbitrary: rb)
  case Nil then show ?case by simp
next
  case (Cons m mb)
  then show ?case by (cases rb) simp_all
qed

lemma select_blocks_snd:
  "select (map2 P (map fst mb) (map fst rb)) (map g rb) =
     map (\<lambda>(m, r). g r) (filter (\<lambda>(m, r). P (fst m) (fst r)) (zip mb rb))"
proof (induction mb arbitrary: rb)
  case Nil then show ?case by simp
next
  case (Cons m mb)
  then show ?case by (cases rb) simp_all
qed

lemma valid_block_iff:
  "valid_block m r \<longleftrightarrow> m \<noteq> NaN \<and> r \<noteq> NaN \<and> m \<noteq> Fin 0 \<and> r \<noteq> Fin 0"
  by (cases m; cases r) (auto simp: valid_block_def fne_def)

lemma flux_calibration_success:
  assumes "bin_image ut (data self) bin_size = (br, bc, muse_blocks)"
    and "bin_image ut reference bin_size = (br, bc, reference_blocks)"
    and "broadcastable (shape (data self)) (shape reference)"
  shows "\<exists>kept gamma offset.
     kept = filter (\<lambda>(m, r). fst m \<noteq> NaN \<and> fst r \<noteq> NaN \<and> fst m \<noteq> Fin 0 \<and> fst r \<noteq> Fin 0)
              (zip muse_blocks reference_blocks)
     \<and> (gamma, offset) =
         odr_run nu (map (\<lambda>(m, r). fst m) kept) (map (\<lambda>(m, r). fst r) kept)
           (map (\<lambda>(m, r). snd m) kept) (map (\<lambda>(m, r). snd r) kept)
     \<and> check_flux_calibration ut nu self reference bin_size False =
         (Inr (), self\<lparr>data := amap (\<lambda>x. fadd (fmul gamma x) offset) (data self)\<rparr>)"
proof -
  let ?kept = "filter (\<lambda>(m, r). fst m \<noteq> NaN \<and> fst r \<noteq> NaN \<and> fst m \<noteq> Fin 0 \<and> fst r \<noteq> Fin 0)
                 (zip muse_blocks reference_blocks)"
  let ?beta = "odr_run nu (map (\<lambda>(m, r). fst m) ?kept) (map (\<lambda>(m, r). fst r) ?kept)
                 (map (\<lambda>(m, r). snd m) ?kept) (map (\<lambda>(m, r). snd r) ?kept)"
  have k: "filter (\<lambda>(m, r). valid_block (fst m) (fst r)) (zip muse_blocks reference_blocks)
           = ?kept"
    by (simp add: valid_block_iff)
  have run: "check_flux_calibration ut nu self reference bin_size False =
      (Inr (), self\<lparr>data := amap (\<lambda>x. fadd (fmul (fst ?beta) x) (snd ?beta)) (data self)\<rparr>)"
    using assms
    by (simp add: check_flux_calibration_def Let_def select_blocks_fst select_blocks_snd k)
  have "?kept = ?kept \<and> (fst ?beta, snd ?beta) = ?beta
        \<and> check_flux_calibration ut nu self reference bin_size False =
          (Inr (), self\<lparr>data := amap (\<lambda>x. fadd (fmul (fst ?beta) x) (snd ?beta)) (data self)\<rparr>)"
    using run by simp
  then show ?thesis by blast
qed

lemma flux_calibration_failure:
  assumes "bin_image ut (data self) bin_size = (mr, mc, muse_blocks)"
    and "bin_image ut reference bin_size = (rr, rc, reference_blocks)"
    and "resample_flag \<or> (mr, mc) \<noteq> (rr, rc)
         \<or> \<not> broadcastable (shape (data self)) (shape reference)"
  shows "\<exists>e. check_flux_calibration ut nu self reference bin_size resample_flag = (Inl e, self)"
  using assms by (auto simp add: check_flux_calibration_def Let_def)

text \<open>
  Claim C8. Both images are binned with the same block size, each block giving a median
  and a standard deviation. A run completes exactly when \<^verbatim>\<open>resample\<close> is off, the two
  grids of blocks have the same shape and the two images can be divided elementwise.
  It then keeps the pairs of blocks in which neither median is NaN or zero, hands their
  medians and standard deviations (x, y, sx, sy) to the orthogonal-distance regression,
  and replaces the data of the object by gamma times the data plus the offset,
  elementwise. Every other run ends in an exception and leaves the object as it was.
\<close>

theorem flux_calibration_regression:
  "case bin_image ut (data self) bin_size of (mr, mc, muse_blocks) \<Rightarrow>
   case bin_image ut reference bin_size of (rr, rc, reference_blocks) \<Rightarrow>
     if \<not> resample_flag \<and> (mr, mc) = (rr, rc)
        \<and> broadcastable (shape (data self)) (shape reference)
     then \<exists>kept gamma offset.
        kept = filter (\<lambda>(m, r). fst m \<noteq> NaN \<and> fst r \<noteq> NaN \<and> fst m \<noteq> Fin 0 \<and> fst r \<noteq> Fin 0)
                 (zip muse_blocks reference_blocks)
        \<and> (gamma, offset) =
            odr_run nu (map (\<lambda>(m, r). fst m) kept) (map (\<lambda>(m, r). fst r) kept)
              (map (\<lambda>(m, r). snd m) kept) (map (\<lambda>(m, r). snd r) kept)
        \<and> check_flux_calibration ut nu self reference bin_size resample_flag =
            (Inr (), self\<lparr>data := amap (\<lambda>x. fadd (fmul gamma x) offset) (data self)\<rparr>)
     else \<exists>e. check_flux_calibration ut nu self reference bin_size resample_flag = (Inl e, self)"
proof -
  obtain mr mc muse_blocks where m: "bin_image ut (data self) bin_size = (mr, mc, muse_blocks)"
    by (cases "bin_image ut (data self) bin_size") auto
  obtain rr rc reference_blocks where
    r: "bin_image ut reference bin_size = (rr, rc, reference_blocks)"
    by (cases "bin_image ut reference bin_size") auto
  show ?thesis
  proof (cases "\<not> resample_flag \<and> (mr, mc) = (rr, rc)
                \<and> broadcastable (shape (data self)) (shape reference)")
    case True
    then have f: "resample_flag = False" and r': "bin_image ut reference bin_size =
        (mr, mc, reference_blocks)" and b: "broadcastable (shape (data self)) (shape reference)"
      using r by simp_all
    have c: "(\<not> resample_flag \<and> (mr, mc) = (rr, rc)
                \<and> broadcastable (shape (data self)) (shape reference)) = True"
      using True by simp
    have ok: "\<exists>kept gamma offset.
        kept = filter (\<lambda>(m, r). fst m \<noteq> NaN \<and> fst r \<noteq> NaN \<and> fst m \<noteq> Fin 0 \<and> fst r \<noteq> Fin 0)
                 (zip muse_blocks reference_blocks)
        \<and> (gamma, offset) =
            odr_run nu (map (\<lambda>(m, r). fst m) kept) (map (\<lambda>(m, r). fst r) kept)
              (map (\<lambda>(m, r). snd m) kept) (map (\<lambda>(m, r). snd r) kept)
        \<and> check_flux_calibration ut nu self reference bin_size resample_flag =
            (Inr (), self\<lparr>data := amap (\<lambda>x. fadd (fmul gamma x) offset) (data self)\<rparr>)"
      using flux_calibration_success [OF m r' b, of nu] unfolding f by assumption
    show ?thesis by (simp only: m r prod.case c if_True) (rule ok)
  next
    case False
    then have c: "(\<not> resample_flag \<and> (mr, mc) = (rr, rc)
                \<and> broadcastable (shape (data self)) (shape reference)) = False"
      by simp
    from False have "resample_flag \<or> (mr, mc) \<noteq> (rr, rc)
         \<or> \<not> broadcastable (shape (data self)) (shape reference)" by blast
    note bad = flux_calibration_failure [OF m r this, of nu]
    show ?thesis by (simp only: m r prod.case c if_False) (rule bad)
  qed
qed

theorem flux_calibration_regression_witness:
  "check_flux_calibration sample_utils sample_numeric sample_muse
     (NdArray 1 4 [Fin 4, Fin 8, Fin 12, Fin 16]) 15 False =
     (Inr (), sample_muse\<lparr>data := NdArray 1 4 [Fin 0, Fin 8, NaN, Fin 16]\<rparr>)"
proof -
  have m: "bin_image sample_utils (data sample_muse) 15 =
      (1, 4, [(Fin 0, Fin 1), (Fin 2, Fin 1), (NaN, Fin 1), (Fin 4, Fin 1)])"
    by (simp add: sample_utils_def sample_muse_def)
  have r: "bin_image sample_utils (NdArray 1 4 [Fin 4, Fin 8, Fin 12, Fin 16]) 15 =
      (1, 4, [(Fin 4, Fin 1), (Fin 8, Fin 1), (Fin 12, Fin 1), (Fin 16, Fin 1)])"
    by (simp add: sample_utils_def)
  have b: "broadcastable (shape (data sample_muse))
             (shape (NdArray 1 4 [Fin 4, Fin 8, Fin 12, Fin 16]))"
    by (simp add: broadcastable_def shape_def sample_muse_def)
  have d: "data sample_muse = NdArray 1 4 [Fin 0, Fin 2, NaN, Fin 4]"
    by (simp add: sample_muse_def)
  from flux_calibration_regression
    [where ut = sample_utils and self = sample_muse and bin_size = 15
       and reference = "NdArray 1 4 [Fin 4, Fin 8, Fin 12, Fin 16]"
       and resample_flag = False and nu = sample_numeric]
  show ?thesis
    unfolding m r using b d by (simp add: sample_numeric_def)
qed

section \<open>The cross-convolution fit\<close>

lemma sample_resampled_reference:
  "resample sample_env sample_reference (Some (header sample_muse)) None True =
     Inr (sample_reference\<lparr>data := NdArray 1 4 [Fin 4, Fin 8, Fin 12, Fin 16],
                            wcs := WCS sample_header2, header := sample_header2\<rparr>, None)"
  by (simp add: resample_header_inplace sample_env_def sample_reference_def sample_image_def
      sample_muse_def sample_area_def sample_header_def sample_header2_def)

lemma sample_calibrated:
  "check_flux_calibration sample_utils sample_numeric sample_muse
     (NdArray 1 4 [Fin 4, Fin 8, Fin 12, Fin 16]) 15 False =
     (Inr (), sample_muse\<lparr>data := NdArray 1 4 [Fin 0, Fin 8, NaN, Fin 16]\<rparr>)"
  by (simp add: check_flux_calibration_def sample_utils_def sample_numeric_def sample_muse_def
      Let_def select_def valid_block_def fne_def broadcastable_def shape_def)

lemma sample_fitted:
  "measure_psf_fit sample_env sample_numeric sample_fit Map.empty
     (sample_muse\<lparr>data := NdArray 1 4 [Fin 0, Fin 8, NaN, Fin 16]\<rparr>)
     (sample_reference\<lparr>data := NdArray 1 4 [Fin 4, Fin 8, Fin 12, Fin 16],
                        wcs := WCS sample_header2, header := sample_header2\<rparr>)
     (NdArray 1 1 [Fin 1]) (NdArray 1 4 [Fin 1, Fin 0, Fin 1, Fin 0]) False False None no_kwargs =
   (Inr (), Map.empty,
    sample_muse\<lparr>data := NdArray 1 4 [Fin 0, Fin 8, NaN, Fin 16],
                 res := Some [[Fin 0.8, Fin 2.8]],
                 star_pos := Some None,
                 starmask := Some (NdArray 1 4 [Fin 0, Fin 0, Fin 0, Fin 0]),
                 best_fit := Some [Fin 0.8, Fin 2.8]\<rparr>)"
  by (simp add: measure_psf_fit_def sample_muse_def sample_fit_def sample_numeric_def
      sample_env_def no_kwargs_def pop_def star_masking_def regions_path_def get_rot_def
      fne_def Let_def)

text \<open>
  Claim C7. When the units of the two images differ, or the reference has no PSF, or the
  scale recorded with its PSF is not the pixel scale of the object rounded to three
  decimals, \<^verbatim>\<open>measure_psf\<close> ends at its assertions: the exception is
  \<^verbatim>\<open>AssertionError\<close> (\<^verbatim>\<open>AttributeError\<close> when a PSF is there without a recorded scale),
  and the files, the object and the reference are what they were before the call, so no
  resampling, calibration or fit has run and no result is stored.
\<close>

theorem measure_psf_preconditions:
  assumes "\<not> (units self = units reference \<and> psf reference \<noteq> None
              \<and> (\<exists>ps. psfscale reference = Some ps
                     \<and> feq ps (around3 (pixel_scale_arcsec env (wcs self)))))"
  shows "measure_psf env ut nu fe fs self reference alpha_free offset oversample kw =
           (Inl (if units self = units reference \<and> psf reference \<noteq> None
                    \<and> psfscale reference = None
                 then AttributeError else AssertionError),
            fs, self, reference)"
  using assms by (auto simp add: measure_psf_def split: option.splits)

theorem measure_psf_preconditions_witness:
  "measure_psf sample_env sample_utils sample_numeric sample_fit Map.empty
     sample_muse (sample_reference\<lparr>units := ''Jy''\<rparr>) False False None no_kwargs =
     (Inl AssertionError, Map.empty, sample_muse, sample_reference\<lparr>units := ''Jy''\<rparr>)
   \<and> measure_psf sample_env sample_utils sample_numeric sample_fit Map.empty
     sample_muse (sample_reference\<lparr>psf := None\<rparr>) False False None no_kwargs =
     (Inl AssertionError, Map.empty, sample_muse, sample_reference\<lparr>psf := None\<rparr>)
   \<and> measure_psf sample_env sample_utils sample_numeric sample_fit Map.empty
     sample_muse (sample_reference\<lparr>psfscale := Some (Fin 0.3)\<rparr>) False False None no_kwargs =
     (Inl AssertionError, Map.empty, sample_muse,
      sample_reference\<lparr>psfscale := Some (Fin 0.3)\<rparr>)"
proof -
  have u: "units sample_muse \<noteq> units (sample_reference\<lparr>units := ''Jy''\<rparr>)"
    by (simp add: sample_muse_def)
  have p: "psf (sample_reference\<lparr>psf := None\<rparr>) = None" by simp
  have s: "psfscale (sample_reference\<lparr>psfscale := Some (Fin 0.3)\<rparr>) = Some (Fin 0.3)"
    "\<not> feq (Fin 0.3) (around3 (pixel_scale_arcsec sample_env (wcs sample_muse)))"
    by (simp_all add: sample_env_def rint_def)
  have a: "\<not> (units sample_muse = units (sample_reference\<lparr>units := ''Jy''\<rparr>)
        \<and> psf (sample_reference\<lparr>units := ''Jy''\<rparr>) \<noteq> None
        \<and> (\<exists>ps. psfscale (sample_reference\<lparr>units := ''Jy''\<rparr>) = Some ps
               \<and> feq ps (around3 (pixel_scale_arcsec sample_env (wcs sample_muse)))))"
    using u by blast
  have b: "\<not> (units sample_muse = units (sample_reference\<lparr>psf := None\<rparr>)
        \<and> psf (sample_reference\<lparr>psf := None\<rparr>) \<noteq> None
        \<and> (\<exists>ps. psfscale (sample_reference\<lparr>psf := None\<rparr>) = Some ps
               \<and> feq ps (around3 (pixel_scale_arcsec sample_env (wcs sample_muse)))))"
    using p by blast
  have c: "\<not> (units sample_muse = units (sample_reference\<lparr>psfscale := Some (Fin 0.3)\<rparr>)
        \<and> psf (sample_reference\<lparr>psfscale := Some (Fin 0.3)\<rparr>) \<noteq> None
        \<and> (\<exists>ps. psfscale (sample_reference\<lparr>psfscale := Some (Fin 0.3)\<rparr>) = Some ps
               \<and> feq ps (around3 (pixel_scale_arcsec sample_env (wcs sample_muse)))))"
    using s by auto
  from measure_psf_preconditions [OF a, of sample_utils sample_numeric sample_fit Map.empty
      False False None no_kwargs]
  have ra: "measure_psf sample_env sample_utils sample_numeric sample_fit Map.empty
     sample_muse (sample_reference\<lparr>units := ''Jy''\<rparr>) False False None no_kwargs =
     (Inl AssertionError, Map.empty, sample_muse, sample_reference\<lparr>units := ''Jy''\<rparr>)"
    using u by simp
  from measure_psf_preconditions [OF b, of sample_utils sample_numeric sample_fit Map.empty
      False False None no_kwargs]
  have rb: "measure_psf sample_env sample_utils sample_numeric sample_fit Map.empty
     sample_muse (sample_reference\<lparr>psf := None\<rparr>) False False None no_kwargs =
     (Inl AssertionError, Map.empty, sample_muse, sample_reference\<lparr>psf := None\<rparr>)"
    by simp
  from measure_psf_preconditions [OF c, of sample_utils sample_numeric sample_fit Map.empty
      False False None no_kwargs]
  have rc: "measure_psf sample_env sample_utils sample_numeric sample_fit Map.empty
     sample_muse (sample_reference\<lparr>psfscale := Some (Fin 0.3)\<rparr>) False False None no_kwargs =
     (Inl AssertionError, Map.empty, sample_muse,
      sample_reference\<lparr>psfscale := Some (Fin 0.3)\<rparr>)"
    by simp
  from ra rb rc show ?thesis by (intro conjI)
qed

text \<open>
  Claim C3, as the code has it. When the three assertions hold, \<^verbatim>\<open>measure_psf\<close>
  resamples the reference in place onto the header of the object (line 149): whatever
  happens afterwards, the reference ends with the header of the object, the transform
  of that header, and the reprojected data multiplied by the ratio of the pixel areas;
  its other attributes are unchanged.
\<close>

theorem measure_psf_resamples_reference:
  assumes "units self = units reference"
    and "psf reference = Some ref_psf"
    and "psfscale reference = Some ps"
    and "feq ps (around3 (pixel_scale_arcsec env (wcs self)))"
  shows "snd (snd (snd (measure_psf env ut nu fe fs self reference alpha_free offset
                          oversample kw))) =
     reference\<lparr>data := amap (\<lambda>x. fmul x (fdiv (proj_plane_pixel_area env (WCS (header self)))
                                                  (proj_plane_pixel_area env (wcs reference))))
                            (reproject_interp env (data reference) (header reference)
                               (header self)),
                wcs := WCS (header self), header := header self\<rparr>"
  using assms
  by (simp add: measure_psf_def resample_header_inplace Let_def
      split: prod.splits sum.splits)

theorem measure_psf_resamples_reference_witness:
  "snd (snd (snd (measure_psf sample_env sample_utils sample_numeric sample_fit Map.empty
     sample_muse sample_reference False False (Some 2) no_kwargs))) =
   sample_reference\<lparr>data := NdArray 1 4 [Fin 4, Fin 8, Fin 12, Fin 16],
                     wcs := WCS sample_header2, header := sample_header2\<rparr>"
proof -
  have pre: "units sample_muse = units sample_reference"
    "psf sample_reference = Some (NdArray 1 1 [Fin 1])"
    "psfscale sample_reference = Some (Fin 0.2)"
    "feq (Fin 0.2) (around3 (pixel_scale_arcsec sample_env (wcs sample_muse)))"
    by (simp_all add: sample_muse_def sample_reference_def sample_image_def sample_env_def
        rint_def)
  have h: "header sample_muse = sample_header2" by (simp add: sample_muse_def)
  have v: "amap (\<lambda>x. fmul x (fdiv (proj_plane_pixel_area sample_env (WCS sample_header2))
                                   (proj_plane_pixel_area sample_env (wcs sample_reference))))
             (reproject_interp sample_env (data sample_reference) (header sample_reference)
                sample_header2) = NdArray 1 4 [Fin 4, Fin 8, Fin 12, Fin 16]"
    by (simp add: sample_env_def sample_reference_def sample_image_def
        sample_area_def sample_header_def sample_header2_def)
  from measure_psf_resamples_reference [OF pre, of sample_utils sample_numeric sample_fit
      Map.empty False False "Some 2" no_kwargs]
  show ?thesis unfolding h v .
qed

text \<open>
  Claim C3, as stated, has the reference keep its data, transform and header. On the
  sample images (the reference on a grid of pixel size 1, the object on one of pixel
  size 2) the fit completes, and the reference it leaves has other data, another
  transform and another header than the reference it was given.
\<close>

theorem measure_psf_changes_reference:
  "measure_psf sample_env sample_utils sample_numeric sample_fit Map.empty
     sample_muse sample_reference False False None no_kwargs =
   (Inr (), Map.empty,
    sample_muse\<lparr>data := NdArray 1 4 [Fin 0, Fin 8, NaN, Fin 16],
                 res := Some [[Fin 0.8, Fin 2.8]],
                 star_pos := Some None,
                 starmask := Some (NdArray 1 4 [Fin 0, Fin 0, Fin 0, Fin 0]),
                 best_fit := Some [Fin 0.8, Fin 2.8]\<rparr>,
    sample_reference\<lparr>data := NdArray 1 4 [Fin 4, Fin 8, Fin 12, Fin 16],
                      wcs := WCS sample_header2, header := sample_header2\<rparr>)
   \<and> data sample_reference = NdArray 1 4 [Fin 0, Fin 1, Fin 2, Fin 3]
   \<and> wcs sample_reference = WCS sample_header
   \<and> header sample_reference = sample_header
   \<and> sample_header \<noteq> sample_header2"
proof -
  have pre: "units sample_muse = units sample_reference"
    "psf sample_reference = Some (NdArray 1 1 [Fin 1])"
    "psfscale sample_reference = Some (Fin 0.2)"
    "feq (Fin 0.2) (around3 (pixel_scale_arcsec sample_env (wcs sample_muse)))"
    by (simp_all add: sample_muse_def sample_reference_def sample_image_def sample_env_def
        rint_def)
  have zm: "amap (\<lambda>x. if feq x (Fin 0) \<or> \<not> isfinite x then Fin 1 else Fin 0)
              (data sample_muse) = NdArray 1 4 [Fin 1, Fin 0, Fin 1, Fin 0]"
    by (simp add: sample_muse_def)
  have d1: "data (sample_reference\<lparr>data := NdArray 1 4 [Fin 4, Fin 8, Fin 12, Fin 16],
                      wcs := WCS sample_header2, header := sample_header2\<rparr>)
            = NdArray 1 4 [Fin 4, Fin 8, Fin 12, Fin 16]" by simp
  have run: "measure_psf sample_env sample_utils sample_numeric sample_fit Map.empty
     sample_muse sample_reference False False None no_kwargs =
   (Inr (), Map.empty,
    sample_muse\<lparr>data := NdArray 1 4 [Fin 0, Fin 8, NaN, Fin 16],
                 res := Some [[Fin 0.8, Fin 2.8]],
                 star_pos := Some None,
                 starmask := Some (NdArray 1 4 [Fin 0, Fin 0, Fin 0, Fin 0]),
                 best_fit := Some [Fin 0.8, Fin 2.8]\<rparr>,
    sample_reference\<lparr>data := NdArray 1 4 [Fin 4, Fin 8, Fin 12, Fin 16],
                      wcs := WCS sample_header2, header := sample_header2\<rparr>)"
    unfolding measure_psf_def
    by (simp only: pre sample_resampled_reference zm d1 sample_calibrated sample_fitted
        Let_def sum.case prod.case option.case if_True if_False simp_thms)
  have rest: "data sample_reference = NdArray 1 4 [Fin 0, Fin 1, Fin 2, Fin 3]"
    "wcs sample_reference = WCS sample_header" "header sample_reference = sample_header"
    "sample_header \<noteq> sample_header2"
    by (simp_all add: sample_reference_def sample_image_def sample_header_def
        sample_header2_def)
  from run rest show ?thesis by (intro conjI)
qed

end
